theory Spec2Isabelle
  imports Complex_Main
begin

section \<open>Data model (app/models/__init__.py)\<close>

text \<open>
  The two status enumerations. Both Python enums have a member \<open>PLANNED\<close>; the sprint
  members carry the prefix \<open>Sprint_\<close> here to keep the constructors apart.
\<close>

datatype SprintStatus = Sprint_PLANNED | Sprint_ACTIVE | Sprint_COMPLETED | Sprint_CANCELLED

datatype SessionStatus = PLANNED | DONE | SKIPPED

text \<open>
  A \<open>date\<close> is its day number; a naive \<open>datetime\<close> is a day number together with
  the microseconds since midnight. Python's unbounded \<open>int\<close> is \<open>int\<close>.
\<close>

type_synonym date = int

type_synonym datetime = "int \<times> nat"

text \<open>The rows of the three tables; a nullable column is an \<open>option\<close>.\<close>

record Sprint =
  sp_id :: int
  sp_title :: string
  sp_goal_text :: string
  sp_start_date :: date
  sp_end_date :: date
  sp_status :: SprintStatus
  sp_created_at :: datetime
  sp_updated_at :: datetime

record Habit =
  h_id :: int
  h_sprint_id :: int
  h_name :: string
  h_description :: "string option"
  h_target_sessions_per_day :: int
  h_created_at :: datetime
  h_updated_at :: datetime

record Session =
  s_id :: int
  s_sprint_id :: int
  s_habit_id :: "int option"
  s_planned_start :: datetime
  s_planned_duration_min :: int
  s_actual_start :: "datetime option"
  s_actual_duration_min :: "int option"
  s_status :: SessionStatus
  s_notes :: "string option"
  s_difficulty :: "int option"
  s_mood :: "int option"
  s_created_at :: datetime

text \<open>
  The database the handlers receive as \<open>db\<close>: the three tables, each a list of rows in
  insertion order. A handler that only reads returns its response; a handler that writes
  returns its response together with the store it leaves behind, which is the store it
  received whenever it raises before \<open>db.add\<close>.
\<close>

record store =
  sprints :: "Sprint list"
  habits :: "Habit list"
  sessions :: "Session list"

definition empty_store :: store where
  "empty_store = \<lparr>sprints = [], habits = [], sessions = []\<rparr>"

text \<open>
  What a request reads from its surroundings: \<open>date.today()\<close> and
  \<open>datetime.utcnow()\<close> (the clock does not advance within one request), and the
  functions of the Python library the form handlers call: \<open>str.strip\<close>, \<open>int\<close> of a
  string and \<open>time.fromisoformat\<close>, the last two with \<open>None\<close> for a
  \<open>ValueError\<close>.
\<close>

record env =
  today :: date
  utcnow :: datetime
  py_strip :: "string \<Rightarrow> string"
  py_int :: "string \<Rightarrow> int option"
  time_fromisoformat :: "string \<Rightarrow> nat option"

text \<open>
  The integer primary key of a new row: one more than the largest id of the table,
  1 in an empty table.
\<close>

definition next_id :: "int list \<Rightarrow> int" where
  "next_id ids = fold max ids 0 + 1"

section \<open>Errors (app/services/errors.py)\<close>

datatype ErrorCode =
  SPRINT_NOT_FOUND | HABIT_NOT_FOUND | SESSION_NOT_FOUND | SPRINT_ID_MISMATCH | UNEXPECTED_ERROR

text \<open>An \<open>HTTPException\<close> with the fields of its \<open>ErrorResponse\<close> payload.\<close>

datatype HTTPException =
  HTTPException (status_code: nat) (code: ErrorCode) (message: string)
    (details: "(string \<times> int) list")

definition build_error :: "ErrorCode \<Rightarrow> nat \<Rightarrow> string \<Rightarrow> (string \<times> int) list \<Rightarrow> HTTPException" where
  "build_error c sc msg det = HTTPException sc c msg det"

text \<open>Python's \<open>str\<close> of an integer, for the f-string of the not-found message.\<close>

fun str_nat :: "nat \<Rightarrow> string" where
  "str_nat n =
     (if n < 10 then [''0123456789'' ! n]
      else str_nat (n div 10) @ [''0123456789'' ! (n mod 10)])"

definition str_int :: "int \<Rightarrow> string" where
  "str_int i = (if i < 0 then CHR ''-'' # str_nat (nat (- i)) else str_nat (nat i))"

section \<open>Lookups (app/routes/sprints.py)\<close>

definition not_found_error :: "ErrorCode \<Rightarrow> string \<Rightarrow> int \<Rightarrow> HTTPException" where
  "not_found_error c entity entity_id =
     build_error c 404 (entity @ '' '' @ str_int entity_id @ '' not found'')
       [(''id'', entity_id)]"

text \<open>\<open>db.get(Model, id)\<close>: the row with that primary key, if there is one.\<close>

definition get_sprint :: "store \<Rightarrow> int \<Rightarrow> Sprint option" where
  "get_sprint db sprint_id = find (\<lambda>sp. sp_id sp = sprint_id) (sprints db)"

definition get_habit :: "store \<Rightarrow> int \<Rightarrow> Habit option" where
  "get_habit db habit_id = find (\<lambda>h. h_id h = habit_id) (habits db)"

definition get_session :: "store \<Rightarrow> int \<Rightarrow> Session option" where
  "get_session db session_id = find (\<lambda>s. s_id s = session_id) (sessions db)"

definition get_sprint_or_404 :: "int \<Rightarrow> store \<Rightarrow> HTTPException + Sprint" where
  "get_sprint_or_404 sprint_id db =
     (case get_sprint db sprint_id of
        None \<Rightarrow> Inl (not_found_error SPRINT_NOT_FOUND ''Sprint'' sprint_id)
      | Some sprint \<Rightarrow> Inr sprint)"

definition get_session_or_404 :: "int \<Rightarrow> store \<Rightarrow> HTTPException + Session" where
  "get_session_or_404 session_id db =
     (case get_session db session_id of
        None \<Rightarrow> Inl (not_found_error SESSION_NOT_FOUND ''Session'' session_id)
      | Some session \<Rightarrow> Inr session)"

section \<open>SQL aggregates and Python coercions\<close>

text \<open>
  \<open>COUNT\<close> of a non-null column counts the rows. \<open>SUM\<close> and \<open>AVG\<close> skip the
  \<open>NULL\<close> values and are \<open>NULL\<close> themselves when no value is left. Python's
  \<open>float\<close> is read as the exact rational it approximates: \<open>a / b\<close> on integers and
  \<open>AVG\<close> are the exact quotients.

  The \<open>Integer\<close> columns are signed 64-bit integers, and \<open>SUM\<close> adds them up row by
  row in a 64-bit accumulator: as soon as one addition leaves the 64-bit range the
  statement fails with the error \<open>integer overflow\<close>, which reaches the caller of
  \<open>db.execute\<close> as an \<open>OperationalError\<close>. \<open>AVG\<close> accumulates in floating point
  and does not fail.
\<close>

datatype sql_error = integer_overflow

definition int64 :: "int \<Rightarrow> bool" where
  "int64 n \<longleftrightarrow> - (2 ^ 63) \<le> n \<and> n < 2 ^ 63"

fun running_sum :: "int \<Rightarrow> int list \<Rightarrow> sql_error + int" where
  "running_sum sofar [] = Inr sofar"
| "running_sum sofar (x # xs) =
     (if int64 (sofar + x) then running_sum (sofar + x) xs else Inl integer_overflow)"

definition sql_count :: "'a list \<Rightarrow> int" where
  "sql_count rows = int (length rows)"

definition non_null :: "'a option list \<Rightarrow> 'a list" where
  "non_null vs = concat (map (\<lambda>v. case v of None \<Rightarrow> [] | Some x \<Rightarrow> [x]) vs)"

definition sql_sum :: "int option list \<Rightarrow> sql_error + int option" where
  "sql_sum vs =
     (case non_null vs of
        [] \<Rightarrow> Inr None
      | x # xs \<Rightarrow>
         (case running_sum 0 (x # xs) of
            Inl err \<Rightarrow> Inl err
          | Inr summed \<Rightarrow> Inr (Some summed)))"

definition sql_avg :: "int option list \<Rightarrow> rat option" where
  "sql_avg vs =
     (case non_null vs of
        [] \<Rightarrow> None
      | x # xs \<Rightarrow> Some (of_int (sum_list (x # xs)) / of_int (int (length (x # xs)))))"

text \<open>\<open>value or 0\<close>: \<open>None\<close> and \<open>0\<close> are both falsy.\<close>

definition or_0 :: "int option \<Rightarrow> int" where
  "or_0 v = (case v of None \<Rightarrow> 0 | Some n \<Rightarrow> (if n \<noteq> 0 then n else 0))"

text \<open>\<open>func.coalesce(column, 0)\<close>.\<close>

definition coalesce_0 :: "int option \<Rightarrow> int option" where
  "coalesce_0 v = (case v of None \<Rightarrow> Some 0 | Some n \<Rightarrow> Some n)"

section \<open>Detailed sprint statistics (sprint_stats)\<close>

text \<open>
  What a handler that runs an aggregate statement can raise: an \<open>HTTPException\<close> of
  its own, or the \<open>OperationalError\<close> of the statement.
\<close>

datatype raised = HTTP HTTPException | OperationalError sql_error

text \<open>
  The dictionary \<open>sprint_stats\<close> returns. A value that may be \<open>None\<close> in the JSON is
  an \<open>option\<close>. The four sums belong to one statement, which fails when any of them
  overflows.
\<close>

record SprintStats =
  st_sprint_id :: int
  st_total_sessions :: int
  st_done_sessions :: int
  st_skipped_sessions :: int
  st_completion_rate :: "rat option"
  st_total_planned_minutes :: int
  st_total_actual_minutes :: int
  st_avg_difficulty :: "rat option"
  st_avg_mood :: "rat option"

definition sprint_stats :: "int \<Rightarrow> store \<Rightarrow> raised + SprintStats" where
  "sprint_stats sprint_id db =
     (case get_sprint_or_404 sprint_id db of
        Inl e \<Rightarrow> Inl (HTTP e)
      | Inr _ \<Rightarrow>
         (let rows = filter (\<lambda>s. s_sprint_id s = sprint_id) (sessions db);
              r_total_sessions = sql_count rows;
              r_avg_difficulty =
                sql_avg (map (\<lambda>s. if s_status s = DONE then s_difficulty s else None) rows);
              r_avg_mood =
                sql_avg (map (\<lambda>s. if s_status s = DONE then s_mood s else None) rows)
          in
          case sql_sum (map (\<lambda>s. Some (if s_status s = DONE then 1 else 0)) rows) of
            Inl err \<Rightarrow> Inl (OperationalError err)
          | Inr r_done_sessions \<Rightarrow>
          case sql_sum (map (\<lambda>s. Some (if s_status s = SKIPPED then 1 else 0)) rows) of
            Inl err \<Rightarrow> Inl (OperationalError err)
          | Inr r_skipped_sessions \<Rightarrow>
          case sql_sum (map (\<lambda>s. Some (s_planned_duration_min s)) rows) of
            Inl err \<Rightarrow> Inl (OperationalError err)
          | Inr r_total_planned_minutes \<Rightarrow>
          case sql_sum (map s_actual_duration_min rows) of
            Inl err \<Rightarrow> Inl (OperationalError err)
          | Inr r_total_actual_minutes \<Rightarrow>
         (let total_sessions = (if r_total_sessions \<noteq> 0 then r_total_sessions else 0);
              done_sessions = or_0 r_done_sessions;
              skipped_sessions = or_0 r_skipped_sessions;
              total_planned_minutes = or_0 r_total_planned_minutes;
              total_actual_minutes = or_0 r_total_actual_minutes;
              avg_difficulty = (case r_avg_difficulty of None \<Rightarrow> None | Some a \<Rightarrow> Some a);
              avg_mood = (case r_avg_mood of None \<Rightarrow> None | Some a \<Rightarrow> Some a);
              completion_rate =
                (if total_sessions \<noteq> 0
                 then Some (of_int done_sessions / of_int total_sessions)
                 else Some 0)
          in Inr \<lparr>st_sprint_id = sprint_id,
                   st_total_sessions = total_sessions,
                   st_done_sessions = done_sessions,
                   st_skipped_sessions = skipped_sessions,
                   st_completion_rate = completion_rate,
                   st_total_planned_minutes = total_planned_minutes,
                   st_total_actual_minutes = total_actual_minutes,
                   st_avg_difficulty = avg_difficulty,
                   st_avg_mood = avg_mood\<rparr>)))"

section \<open>Sprint overview (list_sprint_overview)\<close>

text \<open>
  \<open>GROUP BY\<close>: one group for each value of the key that occurs, holding the rows that
  have it. \<open>OUTER JOIN\<close>: every left row is kept, paired with each right row that
  matches, or with \<open>None\<close> when none does. A grouped subquery computes the sums of
  every group, and the whole statement fails when the sum of any group overflows.
\<close>

fun all_rows :: "(sql_error + 'a) list \<Rightarrow> sql_error + 'a list" where
  "all_rows [] = Inr []"
| "all_rows (r # rs) =
     (case r of
        Inl err \<Rightarrow> Inl err
      | Inr x \<Rightarrow> (case all_rows rs of Inl err \<Rightarrow> Inl err | Inr xs \<Rightarrow> Inr (x # xs)))"

definition group_by :: "('r \<Rightarrow> int) \<Rightarrow> 'r list \<Rightarrow> (int \<times> 'r list) list" where
  "group_by key rows = map (\<lambda>k. (k, filter (\<lambda>r. key r = k) rows)) (remdups (map key rows))"

definition outerjoin :: "'l list \<Rightarrow> 'r list \<Rightarrow> ('l \<Rightarrow> 'r \<Rightarrow> bool) \<Rightarrow> ('l \<times> 'r option) list" where
  "outerjoin ls rs on =
     concat (map (\<lambda>l. case filter (on l) rs of
                         [] \<Rightarrow> [(l, None)]
                       | m # ms \<Rightarrow> map (\<lambda>r. (l, Some r)) (m # ms)) ls)"

record habit_counts_row =
  hcq_sprint_id :: int
  hcq_habits_count :: int

record session_stats_row =
  ssq_sprint_id :: int
  ssq_sessions_count :: int
  ssq_done_sessions :: "int option"
  ssq_total_planned_minutes :: "int option"
  ssq_total_actual_minutes :: "int option"

definition habit_counts_subquery :: "store \<Rightarrow> habit_counts_row list" where
  "habit_counts_subquery db =
     map (\<lambda>(k, g). \<lparr>hcq_sprint_id = k, hcq_habits_count = sql_count g\<rparr>)
       (group_by h_sprint_id (habits db))"

definition session_stats_group :: "int \<times> Session list \<Rightarrow> sql_error + session_stats_row" where
  "session_stats_group kg =
     (case kg of (k, g) \<Rightarrow>
        case sql_sum (map (\<lambda>s. Some (if s_status s = DONE then 1 else 0)) g) of
          Inl err \<Rightarrow> Inl err
        | Inr done_sessions \<Rightarrow>
        case sql_sum (map (\<lambda>s. Some (s_planned_duration_min s)) g) of
          Inl err \<Rightarrow> Inl err
        | Inr total_planned_minutes \<Rightarrow>
        case sql_sum (map s_actual_duration_min g) of
          Inl err \<Rightarrow> Inl err
        | Inr total_actual_minutes \<Rightarrow>
            Inr \<lparr>ssq_sprint_id = k,
                 ssq_sessions_count = sql_count g,
                 ssq_done_sessions = done_sessions,
                 ssq_total_planned_minutes = total_planned_minutes,
                 ssq_total_actual_minutes = total_actual_minutes\<rparr>)"

definition session_stats_subquery :: "store \<Rightarrow> sql_error + session_stats_row list" where
  "session_stats_subquery db =
     all_rows (map session_stats_group (group_by s_sprint_id (sessions db)))"

text \<open>A row of the joined statement, with the labels of its columns.\<close>

record overview_row =
  row_sprint_id :: int
  row_title :: string
  row_status :: SprintStatus
  row_start_date :: date
  row_end_date :: date
  row_habits_count :: "int option"
  row_sessions_count :: "int option"
  row_done_sessions :: "int option"
  row_total_planned_minutes :: "int option"
  row_total_actual_minutes :: "int option"

definition overview_stmt :: "store \<Rightarrow> sql_error + overview_row list" where
  "overview_stmt db =
     (case session_stats_subquery db of
        Inl err \<Rightarrow> Inl err
      | Inr session_stats \<Rightarrow>
         Inr (map (\<lambda>((sprint, hc), ss).
                \<lparr>row_sprint_id = sp_id sprint,
                 row_title = sp_title sprint,
                 row_status = sp_status sprint,
                 row_start_date = sp_start_date sprint,
                 row_end_date = sp_end_date sprint,
                 row_habits_count = coalesce_0 (map_option hcq_habits_count hc),
                 row_sessions_count = coalesce_0 (map_option ssq_sessions_count ss),
                 row_done_sessions = coalesce_0 (Option.bind ss ssq_done_sessions),
                 row_total_planned_minutes =
                   coalesce_0 (Option.bind ss ssq_total_planned_minutes),
                 row_total_actual_minutes = Option.bind ss ssq_total_actual_minutes\<rparr>)
           (sort_key (\<lambda>((sprint, hc), ss). sp_id sprint)
              (outerjoin
                 (outerjoin (sprints db) (habit_counts_subquery db)
                    (\<lambda>sprint hc. hcq_sprint_id hc = sp_id sprint))
                 session_stats
                 (\<lambda>(sprint, hc) ss. ssq_sprint_id ss = sp_id sprint)))))"

text \<open>
  The schema \<open>SprintOverview\<close> (app/schemas/__init__.py); its field \<open>id\<close> is filled
  from \<open>sprint_id\<close>, and it has no field for the two dates the handler passes.
\<close>

record SprintOverview =
  ov_id :: int
  ov_title :: string
  ov_status :: SprintStatus
  ov_habits_count :: int
  ov_sessions_count :: int
  ov_done_sessions :: int
  ov_completion_rate :: "rat option"
  ov_total_planned_minutes :: int
  ov_total_actual_minutes :: "int option"

definition overview_item :: "overview_row \<Rightarrow> SprintOverview" where
  "overview_item row =
     (let sessions_count = or_0 (row_sessions_count row);
          done_sessions = or_0 (row_done_sessions row);
          completion_rate =
            (if sessions_count \<noteq> 0
             then Some (of_int done_sessions / of_int sessions_count)
             else None)
      in \<lparr>ov_id = row_sprint_id row,
          ov_title = row_title row,
          ov_status = row_status row,
          ov_habits_count = or_0 (row_habits_count row),
          ov_sessions_count = sessions_count,
          ov_done_sessions = done_sessions,
          ov_completion_rate = completion_rate,
          ov_total_planned_minutes = or_0 (row_total_planned_minutes row),
          ov_total_actual_minutes = row_total_actual_minutes row\<rparr>)"

definition list_sprint_overview :: "store \<Rightarrow> raised + SprintOverview list" where
  "list_sprint_overview db =
     (case overview_stmt db of
        Inl err \<Rightarrow> Inl (OperationalError err)
      | Inr results \<Rightarrow> Inr (map overview_item results))"

section \<open>Request schemas (app/schemas/__init__.py)\<close>

record SprintCreate =
  spc_title :: string
  spc_goal_text :: string
  spc_start_date :: date
  spc_end_date :: date
  spc_status :: SprintStatus

record SprintStatusUpdate =
  ssu_status :: SprintStatus

record HabitCreate =
  hbc_sprint_id :: int
  hbc_name :: string
  hbc_description :: "string option"
  hbc_target_sessions_per_day :: int

record SessionCreate =
  sec_sprint_id :: int
  sec_habit_id :: "int option"
  sec_planned_start :: datetime
  sec_planned_duration_min :: int
  sec_actual_start :: "datetime option"
  sec_actual_duration_min :: "int option"
  sec_status :: SessionStatus
  sec_notes :: "string option"
  sec_difficulty :: "int option"
  sec_mood :: "int option"

record SessionCompleteRequest =
  scr_actual_start :: datetime
  scr_actual_duration_min :: int
  scr_notes :: "string option"
  scr_difficulty :: "int option"
  scr_mood :: "int option"

record SessionSkipRequest =
  skr_notes :: "string option"

text \<open>
  The bounds the \<open>Field\<close> declarations put on a payload (\<open>ge\<close>, \<open>le\<close>,
  \<open>max_length\<close>). A handler only ever receives a payload that satisfies them.
\<close>

definition opt_between :: "int \<Rightarrow> int \<Rightarrow> int option \<Rightarrow> bool" where
  "opt_between lo hi v = (case v of None \<Rightarrow> True | Some n \<Rightarrow> lo \<le> n \<and> n \<le> hi)"

definition opt_ge :: "int \<Rightarrow> int option \<Rightarrow> bool" where
  "opt_ge lo v = (case v of None \<Rightarrow> True | Some n \<Rightarrow> lo \<le> n)"

definition HabitCreate_valid :: "HabitCreate \<Rightarrow> bool" where
  "HabitCreate_valid p =
     (1 \<le> hbc_sprint_id p \<and> length (hbc_name p) \<le> 255 \<and> 1 \<le> hbc_target_sessions_per_day p)"

definition SessionCreate_valid :: "SessionCreate \<Rightarrow> bool" where
  "SessionCreate_valid p =
     (1 \<le> sec_sprint_id p \<and> opt_ge 1 (sec_habit_id p) \<and> 1 \<le> sec_planned_duration_min p
      \<and> opt_ge 1 (sec_actual_duration_min p)
      \<and> opt_between 1 5 (sec_difficulty p) \<and> opt_between 1 5 (sec_mood p))"

definition SessionCompleteRequest_valid :: "SessionCompleteRequest \<Rightarrow> bool" where
  "SessionCompleteRequest_valid p =
     (1 \<le> scr_actual_duration_min p
      \<and> opt_between 1 5 (scr_difficulty p) \<and> opt_between 1 5 (scr_mood p))"

text \<open>
  The body of a completion request as the caller sends it: a field the caller omits is
  \<open>None\<close>. \<open>SessionCompleteRequest\<close> declares \<open>actual_start\<close> and
  \<open>actual_duration_min\<close> with \<open>Field(...)\<close>, that is required, and the other
  three with the default \<open>None\<close>; a body that does not validate never reaches the
  handler.
\<close>

record SessionCompleteBody =
  body_actual_start :: "datetime option"
  body_actual_duration_min :: "int option"
  body_notes :: "string option"
  body_difficulty :: "int option"
  body_mood :: "int option"

definition SessionCompleteRequest_validate :: "SessionCompleteBody \<Rightarrow> SessionCompleteRequest option" where
  "SessionCompleteRequest_validate body =
     (case body_actual_start body of
        None \<Rightarrow> None
      | Some actual_start \<Rightarrow>
         (case body_actual_duration_min body of
            None \<Rightarrow> None
          | Some actual_duration_min \<Rightarrow>
             (let p = \<lparr>scr_actual_start = actual_start,
                       scr_actual_duration_min = actual_duration_min,
                       scr_notes = body_notes body,
                       scr_difficulty = body_difficulty body,
                       scr_mood = body_mood body\<rparr>
              in if SessionCompleteRequest_valid p then Some p else None)))"

section \<open>Writing rows\<close>

text \<open>
  \<open>Model(**payload.model_dump())\<close>, \<open>db.add\<close> and the flush: the new row takes the
  payload's fields, the next id of its table and the column defaults, and is appended to
  its table. The store itself checks no reference between tables. The \<open>CHECK\<close>
  constraints of the sessions table are \<open>session_checks\<close>; the bounds of the schemas
  imply them, and the handlers keep them (lemmas \<open>insert_session_checks\<close>,
  \<open>complete_session_checks\<close> and \<open>skip_session_checks\<close> below). A commit
  always succeeds here: the \<open>except\<close> branches of the form handlers, which roll a
  failed commit back and redirect with an error, have no counterpart.
\<close>

definition session_checks :: "Session \<Rightarrow> bool" where
  "session_checks s = (opt_between 1 5 (s_difficulty s) \<and> opt_between 1 5 (s_mood s))"

definition insert_sprint :: "env \<Rightarrow> SprintCreate \<Rightarrow> store \<Rightarrow> Sprint \<times> store" where
  "insert_sprint e payload db =
     (let sprint = \<lparr>sp_id = next_id (map sp_id (sprints db)),
                    sp_title = spc_title payload,
                    sp_goal_text = spc_goal_text payload,
                    sp_start_date = spc_start_date payload,
                    sp_end_date = spc_end_date payload,
                    sp_status = spc_status payload,
                    sp_created_at = utcnow e,
                    sp_updated_at = utcnow e\<rparr>
      in (sprint, db\<lparr>sprints := sprints db @ [sprint]\<rparr>))"

definition insert_habit :: "env \<Rightarrow> HabitCreate \<Rightarrow> store \<Rightarrow> Habit \<times> store" where
  "insert_habit e payload db =
     (let habit = \<lparr>h_id = next_id (map h_id (habits db)),
                   h_sprint_id = hbc_sprint_id payload,
                   h_name = hbc_name payload,
                   h_description = hbc_description payload,
                   h_target_sessions_per_day = hbc_target_sessions_per_day payload,
                   h_created_at = utcnow e,
                   h_updated_at = utcnow e\<rparr>
      in (habit, db\<lparr>habits := habits db @ [habit]\<rparr>))"

definition insert_session :: "env \<Rightarrow> SessionCreate \<Rightarrow> store \<Rightarrow> Session \<times> store" where
  "insert_session e payload db =
     (let session = \<lparr>s_id = next_id (map s_id (sessions db)),
                     s_sprint_id = sec_sprint_id payload,
                     s_habit_id = sec_habit_id payload,
                     s_planned_start = sec_planned_start payload,
                     s_planned_duration_min = sec_planned_duration_min payload,
                     s_actual_start = sec_actual_start payload,
                     s_actual_duration_min = sec_actual_duration_min payload,
                     s_status = sec_status payload,
                     s_notes = sec_notes payload,
                     s_difficulty = sec_difficulty payload,
                     s_mood = sec_mood payload,
                     s_created_at = utcnow e\<rparr>
      in (session, db\<lparr>sessions := sessions db @ [session]\<rparr>))"

text \<open>
  \<open>db.commit()\<close> after a loaded object was changed in place: the row with the object's
  primary key takes the object's state.
\<close>

definition commit_sprint :: "Sprint \<Rightarrow> store \<Rightarrow> store" where
  "commit_sprint sprint db =
     db\<lparr>sprints := map (\<lambda>r. if sp_id r = sp_id sprint then sprint else r) (sprints db)\<rparr>"

definition commit_session :: "Session \<Rightarrow> store \<Rightarrow> store" where
  "commit_session session db =
     db\<lparr>sessions := map (\<lambda>r. if s_id r = s_id session then session else r) (sessions db)\<rparr>"

section \<open>API handlers (app/routes/sprints.py)\<close>

text \<open>
  Each handler is its Python body: it takes the path parameter and the payload the
  framework has already validated (\<open>Path(gt=0)\<close> and the \<open>Field\<close> bounds are
  checked before a handler is called), raises an \<open>HTTPException\<close> as \<open>Inl\<close> and
  returns its result as \<open>Inr\<close>.
\<close>

definition list_sprints :: "store \<Rightarrow> Sprint list" where
  "list_sprints db = sprints db"

definition create_sprint :: "env \<Rightarrow> SprintCreate \<Rightarrow> store \<Rightarrow> Sprint \<times> store" where
  "create_sprint e payload db = insert_sprint e payload db"

definition update_sprint_status ::
  "env \<Rightarrow> int \<Rightarrow> SprintStatusUpdate \<Rightarrow> store \<Rightarrow> (HTTPException + Sprint) \<times> store" where
  "update_sprint_status e sprint_id payload db =
     (case get_sprint_or_404 sprint_id db of
        Inl err \<Rightarrow> (Inl err, db)
      | Inr sprint \<Rightarrow>
         (let sprint' =
                (if ssu_status payload \<noteq> sp_status sprint
                 then sprint\<lparr>sp_status := ssu_status payload, sp_updated_at := utcnow e\<rparr>
                 else sprint)
          in (Inr sprint', commit_sprint sprint' db)))"

definition sprint_id_mismatch :: "int \<Rightarrow> int \<Rightarrow> HTTPException" where
  "sprint_id_mismatch path_sprint_id body_sprint_id =
     build_error SPRINT_ID_MISMATCH 400 ''sprint_id mismatch''
       [(''path_sprint_id'', path_sprint_id), (''body_sprint_id'', body_sprint_id)]"

definition create_habit ::
  "env \<Rightarrow> int \<Rightarrow> HabitCreate \<Rightarrow> store \<Rightarrow> (HTTPException + Habit) \<times> store" where
  "create_habit e sprint_id payload db =
     (case get_sprint_or_404 sprint_id db of
        Inl err \<Rightarrow> (Inl err, db)
      | Inr _ \<Rightarrow>
         if hbc_sprint_id payload \<noteq> sprint_id
         then (Inl (sprint_id_mismatch sprint_id (hbc_sprint_id payload)), db)
         else (let (habit, db') = insert_habit e payload db in (Inr habit, db')))"

definition list_habits :: "int \<Rightarrow> store \<Rightarrow> HTTPException + Habit list" where
  "list_habits sprint_id db =
     (case get_sprint_or_404 sprint_id db of
        Inl err \<Rightarrow> Inl err
      | Inr _ \<Rightarrow> Inr (filter (\<lambda>h. h_sprint_id h = sprint_id) (habits db)))"

definition create_session ::
  "env \<Rightarrow> int \<Rightarrow> SessionCreate \<Rightarrow> store \<Rightarrow> (HTTPException + Session) \<times> store" where
  "create_session e sprint_id payload db =
     (case get_sprint_or_404 sprint_id db of
        Inl err \<Rightarrow> (Inl err, db)
      | Inr _ \<Rightarrow>
         if sec_sprint_id payload \<noteq> sprint_id
         then (Inl (sprint_id_mismatch sprint_id (sec_sprint_id payload)), db)
         else (let (session, db') = insert_session e payload db in (Inr session, db')))"

definition complete_session ::
  "int \<Rightarrow> SessionCompleteRequest \<Rightarrow> store \<Rightarrow> (HTTPException + Session) \<times> store" where
  "complete_session session_id payload db =
     (case get_session_or_404 session_id db of
        Inl err \<Rightarrow> (Inl err, db)
      | Inr session \<Rightarrow>
         (let session' = session\<lparr>s_status := DONE,
                                  s_actual_start := Some (scr_actual_start payload),
                                  s_actual_duration_min := Some (scr_actual_duration_min payload),
                                  s_notes := scr_notes payload,
                                  s_difficulty := scr_difficulty payload,
                                  s_mood := scr_mood payload\<rparr>
          in (Inr session', commit_session session' db)))"

definition skip_session ::
  "int \<Rightarrow> SessionSkipRequest option \<Rightarrow> store \<Rightarrow> (HTTPException + Session) \<times> store" where
  "skip_session session_id payload db =
     (case get_session_or_404 session_id db of
        Inl err \<Rightarrow> (Inl err, db)
      | Inr session \<Rightarrow>
         (let session1 = session\<lparr>s_status := SKIPPED\<rparr>;
              session' =
                (case payload of
                   None \<Rightarrow> session1
                 | Some p \<Rightarrow>
                    (case skr_notes p of
                       None \<Rightarrow> session1
                     | Some n \<Rightarrow> session1\<lparr>s_notes := Some n\<rparr>))
          in (Inr session', commit_session session' db)))"

section \<open>Form handlers (app/routes/ui.py)\<close>

text \<open>
  A form handler answers with a redirect: the page it sends the browser to, the flash
  message and whether the message is an error.
\<close>

datatype page = sprints_page | sprint_detail_page int

datatype redirect = Redirect page "string option" bool

definition default_redirect :: "page \<Rightarrow> string option \<Rightarrow> bool \<Rightarrow> redirect" where
  "default_redirect url msg error = Redirect url msg error"

definition create_sprint_ui :: "env \<Rightarrow> string \<Rightarrow> string \<Rightarrow> date \<Rightarrow> date \<Rightarrow> store \<Rightarrow> redirect \<times> store" where
  "create_sprint_ui e title goal_text start_date end_date db =
     (let (sprint, db') =
            insert_sprint e \<lparr>spc_title = title, spc_goal_text = goal_text,
                             spc_start_date = start_date, spc_end_date = end_date,
                             spc_status = Sprint_PLANNED\<rparr> db
      in (Redirect sprints_page (Some ''Sprint+created'') False, db'))"

definition create_habit_ui ::
  "env \<Rightarrow> int \<Rightarrow> string \<Rightarrow> string option \<Rightarrow> int \<Rightarrow> store \<Rightarrow> redirect \<times> store" where
  "create_habit_ui e sprint_id name description target_sessions_per_day db =
     (case get_sprint db sprint_id of
        None \<Rightarrow> (default_redirect sprints_page (Some ''Sprint+not+found'') True, db)
      | Some sprint \<Rightarrow>
         (let clean_name = py_strip e name in
          if clean_name = [] \<or> target_sessions_per_day \<le> 0
          then (default_redirect (sprint_detail_page sprint_id)
                  (Some ''Unable+to+create+habit'') True, db)
          else
            (let (habit, db') =
                   insert_habit e
                     \<lparr>hbc_sprint_id = sprint_id,
                      hbc_name = clean_name,
                      hbc_description =
                        (case description of
                           None \<Rightarrow> None
                         | Some d \<Rightarrow> if d \<noteq> [] then Some (py_strip e d) else None),
                      hbc_target_sessions_per_day = target_sessions_per_day\<rparr> db
             in (default_redirect (sprint_detail_page sprint_id) (Some ''Habit+created'') False,
                 db'))))"

definition delete_habit_ui :: "int \<Rightarrow> store \<Rightarrow> redirect \<times> store" where
  "delete_habit_ui habit_id db =
     (case get_habit db habit_id of
        None \<Rightarrow> (default_redirect sprints_page (Some ''Habit+not+found'') True, db)
      | Some habit \<Rightarrow>
         (let sprint_id = h_sprint_id habit;
              db' = db\<lparr>sessions := filter (\<lambda>s. s_habit_id s \<noteq> Some habit_id) (sessions db),
                       habits := filter (\<lambda>h. h_id h \<noteq> h_id habit) (habits db)\<rparr>
          in (default_redirect (sprint_detail_page sprint_id) (Some ''Habit+deleted'') False,
              db')))"

text \<open>
  The habit a planning form selects: \<open>Inl\<close> is the redirect for an invalid habit,
  \<open>Inr\<close> the \<open>habit_obj\<close> the handler goes on with.
\<close>

definition selected_habit :: "env \<Rightarrow> int \<Rightarrow> string option \<Rightarrow> store \<Rightarrow> redirect + Habit option" where
  "selected_habit e sprint_id habit_id db =
     (let habit_id_value =
            (case habit_id of
               None \<Rightarrow> None
             | Some h \<Rightarrow> if h \<noteq> [] then py_int e h else None)
      in case habit_id_value of
           None \<Rightarrow> Inr None
         | Some v \<Rightarrow>
            if v \<noteq> 0
            then (case get_habit db v of
                    None \<Rightarrow>
                      Inl (default_redirect (sprint_detail_page sprint_id)
                             (Some ''Invalid+habit+selected'') True)
                  | Some habit_obj \<Rightarrow>
                      if h_sprint_id habit_obj \<noteq> sprint_id
                      then Inl (default_redirect (sprint_detail_page sprint_id)
                                  (Some ''Invalid+habit+selected'') True)
                      else Inr (Some habit_obj))
            else Inr None)"

definition time_cls :: "nat \<Rightarrow> nat \<Rightarrow> nat" where
  "time_cls hour minute = (hour * 60 + minute) * 60000000"

definition datetime_combine :: "date \<Rightarrow> nat \<Rightarrow> datetime" where
  "datetime_combine d t = (d, t)"

definition replace_hour :: "datetime \<Rightarrow> nat \<Rightarrow> datetime" where
  "replace_hour dt hour = (fst dt, time_cls hour 0 + snd dt mod 3600000000)"

definition plan_session_ui ::
  "env \<Rightarrow> int \<Rightarrow> string option \<Rightarrow> date \<Rightarrow> string option \<Rightarrow> int \<Rightarrow> string option \<Rightarrow> store
   \<Rightarrow> redirect \<times> store" where
  "plan_session_ui e sprint_id habit_id planned_start_date planned_start_time
       planned_duration_min notes db =
     (if get_sprint db sprint_id = None \<or> planned_duration_min \<le> 0
      then (default_redirect (sprint_detail_page sprint_id)
              (Some ''Unable+to+plan+session'') True, db)
      else
        (case selected_habit e sprint_id habit_id db of
           Inl r \<Rightarrow> (r, db)
         | Inr habit_obj \<Rightarrow>
            (let start_time =
                   (case planned_start_time of
                      None \<Rightarrow> time_cls 9 0
                    | Some t \<Rightarrow>
                       if t \<noteq> []
                       then (case time_fromisoformat e t of
                               None \<Rightarrow> time_cls 9 0
                             | Some parsed \<Rightarrow> parsed)
                       else time_cls 9 0);
                 planned_start = datetime_combine planned_start_date start_time;
                 (session, db') =
                   insert_session e
                     \<lparr>sec_sprint_id = sprint_id,
                      sec_habit_id = map_option h_id habit_obj,
                      sec_planned_start = planned_start,
                      sec_planned_duration_min = planned_duration_min,
                      sec_actual_start = None,
                      sec_actual_duration_min = None,
                      sec_status = PLANNED,
                      sec_notes =
                        (case notes of
                           None \<Rightarrow> None
                         | Some n \<Rightarrow> if n \<noteq> [] then Some (py_strip e n) else None),
                      sec_difficulty = None,
                      sec_mood = None\<rparr> db
             in (default_redirect (sprint_detail_page sprint_id) (Some ''Session+planned'') False,
                 db'))))"

definition complete_session_ui :: "env \<Rightarrow> int \<Rightarrow> store \<Rightarrow> redirect \<times> store" where
  "complete_session_ui e session_id db =
     (case get_session db session_id of
        None \<Rightarrow> (default_redirect sprints_page (Some ''Unable+to+update+session'') True, db)
      | Some session \<Rightarrow>
         (let session1 = session\<lparr>s_status := DONE\<rparr>;
              session2 =
                (if s_actual_start session1 = None
                 then session1\<lparr>s_actual_start := Some (utcnow e)\<rparr>
                 else session1);
              session3 =
                (if s_actual_duration_min session2 = None
                 then session2\<lparr>s_actual_duration_min := Some (s_planned_duration_min session2)\<rparr>
                 else session2)
          in (default_redirect (sprint_detail_page (s_sprint_id session3))
                (Some ''Session+updated'') False,
              commit_session session3 db)))"

definition skip_session_ui :: "int \<Rightarrow> store \<Rightarrow> redirect \<times> store" where
  "skip_session_ui session_id db =
     (case get_session db session_id of
        None \<Rightarrow> (default_redirect sprints_page (Some ''Unable+to+update+session'') True, db)
      | Some session \<Rightarrow>
         (let session' = session\<lparr>s_status := SKIPPED\<rparr>
          in (default_redirect (sprint_detail_page (s_sprint_id session'))
                (Some ''Session+updated'') False,
              commit_session session' db)))"

section \<open>Demo seed (app/routes/demo.py)\<close>

text \<open>
  Adding a \<open>timedelta\<close> of whole days and hours to a \<open>datetime\<close>. The seed
  reads \<open>habits[0]\<close> from the list of the two habits it has just added, which is
  \<open>hd\<close> of a list that is never empty.
\<close>

definition add_timedelta :: "datetime \<Rightarrow> int \<Rightarrow> int \<Rightarrow> datetime" where
  "add_timedelta dt days hours =
     (let us = int (snd dt) + hours * 3600000000
      in (fst dt + days + us div 86400000000, nat (us mod 86400000000)))"

fun insert_habits :: "env \<Rightarrow> HabitCreate list \<Rightarrow> store \<Rightarrow> Habit list \<times> store" where
  "insert_habits e [] db = ([], db)"
| "insert_habits e (payload # payloads) db =
     (let (habit, db1) = insert_habit e payload db;
          (habits', db2) = insert_habits e payloads db1
      in (habit # habits', db2))"

fun insert_sessions :: "env \<Rightarrow> SessionCreate list \<Rightarrow> store \<Rightarrow> Session list \<times> store" where
  "insert_sessions e [] db = ([], db)"
| "insert_sessions e (payload # payloads) db =
     (let (session, db1) = insert_session e payload db;
          (sessions', db2) = insert_sessions e payloads db1
      in (session # sessions', db2))"

record SeedResponse =
  seed_sprint_id :: int
  seed_habits :: "string list"
  seed_sessions :: "(int \<times> SessionStatus \<times> int) list"

definition seed_session_payload :: "int \<Rightarrow> int \<Rightarrow> datetime \<Rightarrow> nat \<Rightarrow> SessionCreate" where
  "seed_session_payload sprint_id habit_id base_start offset =
     \<lparr>sec_sprint_id = sprint_id,
      sec_habit_id = Some habit_id,
      sec_planned_start = add_timedelta base_start (int offset) 0,
      sec_planned_duration_min = (if offset mod 2 = 0 then 60 else 45),
      sec_actual_start =
        (if offset mod 3 \<noteq> 0
         then Some (add_timedelta base_start (int offset) (int (offset mod 3)))
         else None),
      sec_actual_duration_min = (if offset mod 3 \<noteq> 0 then Some 55 else None),
      sec_status = (if offset mod 3 \<noteq> 0 then DONE else SKIPPED),
      sec_notes = (if offset mod 3 \<noteq> 0 then Some ''Felt productive'' else Some ''Needed rest''),
      sec_difficulty = (if offset mod 2 = 0 then Some 4 else Some 3),
      sec_mood = Some (3 + int (offset mod 2))\<rparr>"

definition seed_demo :: "env \<Rightarrow> store \<Rightarrow> SeedResponse \<times> store" where
  "seed_demo e db =
     (let db0 = db\<lparr>sessions := [], habits := [], sprints := []\<rparr>;
          sprint_data = \<lparr>spc_title = ''Deep Work Week'',
                         spc_goal_text = ''Solidify DS & Algorithms fundamentals'',
                         spc_start_date = today e,
                         spc_end_date = today e + 6,
                         spc_status = Sprint_ACTIVE\<rparr>;
          (sprint, db1) = insert_sprint e sprint_data db0;
          habits_payload =
            [\<lparr>hbc_sprint_id = sp_id sprint,
              hbc_name = ''Morning math drills'',
              hbc_description = Some ''80 minutes focused problem solving'',
              hbc_target_sessions_per_day = 2\<rparr>,
             \<lparr>hbc_sprint_id = sp_id sprint,
              hbc_name = ''Evening recap notes'',
              hbc_description = Some ''Summaries of key takeaways'',
              hbc_target_sessions_per_day = 1\<rparr>];
          (habits', db2) = insert_habits e habits_payload db1;
          base_start = replace_hour (datetime_combine (sp_start_date sprint) 0) 9;
          sessions_payload =
            map (seed_session_payload (sp_id sprint) (h_id (hd habits')) base_start) [0..<6];
          (sessions', db3) = insert_sessions e sessions_payload db2
      in (\<lparr>seed_sprint_id = sp_id sprint,
           seed_habits = map h_name habits',
           seed_sessions =
             map (\<lambda>s. (s_id s, s_status s, s_planned_duration_min s)) sessions'\<rparr>,
          db3))"

section \<open>Every exposed operation\<close>

text \<open>
  One constructor for each route of the application, with the arguments the handler
  takes, and the store each leaves behind. The routes that only run \<open>SELECT\<close>
  statements or render a page leave the store as it is.
\<close>

datatype request =
    GET_root
  | GET_sprints
  | POST_sprints SprintCreate
  | GET_sprints_overview
  | GET_sprint int
  | PATCH_sprint_status int SprintStatusUpdate
  | POST_habits int HabitCreate
  | GET_habits int
  | POST_sessions int SessionCreate
  | PATCH_session_complete int SessionCompleteRequest
  | PATCH_session_skip int "SessionSkipRequest option"
  | GET_sprint_stats int
  | POST_demo_seed
  | GET_ui
  | POST_ui_sprints string string date date
  | GET_ui_sprint int "string option"
  | POST_ui_habits int string "string option" int
  | POST_ui_habit_delete int
  | POST_ui_sessions_plan int "string option" date "string option" int "string option"
  | POST_ui_session_complete int
  | POST_ui_session_skip int

fun handle :: "env \<Rightarrow> request \<Rightarrow> store \<Rightarrow> store" where
  "handle e GET_root db = db"
| "handle e GET_sprints db = db"
| "handle e (POST_sprints payload) db = snd (create_sprint e payload db)"
| "handle e GET_sprints_overview db = db"
| "handle e (GET_sprint sprint_id) db = db"
| "handle e (PATCH_sprint_status sprint_id payload) db =
     snd (update_sprint_status e sprint_id payload db)"
| "handle e (POST_habits sprint_id payload) db = snd (create_habit e sprint_id payload db)"
| "handle e (GET_habits sprint_id) db = db"
| "handle e (POST_sessions sprint_id payload) db = snd (create_session e sprint_id payload db)"
| "handle e (PATCH_session_complete session_id payload) db =
     snd (complete_session session_id payload db)"
| "handle e (PATCH_session_skip session_id payload) db =
     snd (skip_session session_id payload db)"
| "handle e (GET_sprint_stats sprint_id) db = db"
| "handle e POST_demo_seed db = snd (seed_demo e db)"
| "handle e GET_ui db = db"
| "handle e (POST_ui_sprints title goal_text start_date end_date) db =
     snd (create_sprint_ui e title goal_text start_date end_date db)"
| "handle e (GET_ui_sprint sprint_id sessions_filter) db = db"
| "handle e (POST_ui_habits sprint_id name description target) db =
     snd (create_habit_ui e sprint_id name description target db)"
| "handle e (POST_ui_habit_delete habit_id) db = snd (delete_habit_ui habit_id db)"
| "handle e (POST_ui_sessions_plan sprint_id habit_id d t duration notes) db =
     snd (plan_session_ui e sprint_id habit_id d t duration notes db)"
| "handle e (POST_ui_session_complete session_id) db = snd (complete_session_ui e session_id db)"
| "handle e (POST_ui_session_skip session_id) db = snd (skip_session_ui session_id db)"

section \<open>The quantities the specification names\<close>

text \<open>
  Written from the specification's words, to compare the handlers with: the sessions of
  a sprint, the number of sessions with a status, the values of an optional field among
  the done sessions, and the average of a list of values (null when the list is empty).
\<close>

definition sprint_sessions :: "store \<Rightarrow> int \<Rightarrow> Session list" where
  "sprint_sessions db sprint_id = filter (\<lambda>s. s_sprint_id s = sprint_id) (sessions db)"

definition sprint_habits :: "store \<Rightarrow> int \<Rightarrow> Habit list" where
  "sprint_habits db sprint_id = filter (\<lambda>h. h_sprint_id h = sprint_id) (habits db)"

definition count_status :: "SessionStatus \<Rightarrow> Session list \<Rightarrow> nat" where
  "count_status st rows = length (filter (\<lambda>s. s_status s = st) rows)"

definition done_values :: "(Session \<Rightarrow> int option) \<Rightarrow> Session list \<Rightarrow> int list" where
  "done_values field rows =
     map the (filter (\<lambda>v. v \<noteq> None) (map field (filter (\<lambda>s. s_status s = DONE) rows)))"

definition average :: "int list \<Rightarrow> rat option" where
  "average xs = (if xs = [] then None else Some (of_int (sum_list xs) / of_nat (length xs)))"

text \<open>
  The total of the values that are present, null when there is none; the running totals
  of a list of values; and the condition that the sums of a statement stay in the 64-bit
  range: every running total of the done indicators, the skipped indicators, the planned
  minutes and the actual minutes that are present is a 64-bit integer. The overview
  statement has no sum of skipped indicators.
\<close>

definition null_or_total :: "int option list \<Rightarrow> int option" where
  "null_or_total vs = (case non_null vs of [] \<Rightarrow> None | x # xs \<Rightarrow> Some (sum_list (x # xs)))"

fun running_totals :: "int \<Rightarrow> int list \<Rightarrow> int list" where
  "running_totals sofar [] = []"
| "running_totals sofar (x # xs) = (sofar + x) # running_totals (sofar + x) xs"

definition sum_fits :: "int list \<Rightarrow> bool" where
  "sum_fits xs = list_all int64 (running_totals 0 xs)"

definition overview_totals_fit :: "Session list \<Rightarrow> bool" where
  "overview_totals_fit rows \<longleftrightarrow>
     sum_fits (map (\<lambda>s. if s_status s = DONE then 1 else 0) rows)
     \<and> sum_fits (map s_planned_duration_min rows)
     \<and> sum_fits (non_null (map s_actual_duration_min rows))"

definition stats_totals_fit :: "Session list \<Rightarrow> bool" where
  "stats_totals_fit rows \<longleftrightarrow>
     overview_totals_fit rows
     \<and> sum_fits (map (\<lambda>s. if s_status s = SKIPPED then 1 else 0) rows)"

text \<open>
  The rows of the grouped sessions subquery when no sum overflows, and the overview item
  of a sprint.
\<close>

definition session_stats_rows :: "store \<Rightarrow> session_stats_row list" where
  "session_stats_rows db =
     map (\<lambda>(k, g).
            \<lparr>ssq_sprint_id = k,
             ssq_sessions_count = sql_count g,
             ssq_done_sessions =
               null_or_total (map (\<lambda>s. Some (if s_status s = DONE then 1 else 0)) g),
             ssq_total_planned_minutes =
               null_or_total (map (\<lambda>s. Some (s_planned_duration_min s)) g),
             ssq_total_actual_minutes = null_or_total (map s_actual_duration_min g)\<rparr>)
       (group_by s_sprint_id (sessions db))"

definition sprint_overview :: "store \<Rightarrow> Sprint \<Rightarrow> SprintOverview" where
  "sprint_overview db sprint =
     (let rows = sprint_sessions db (sp_id sprint);
          with_actual = filter (\<lambda>s. s_actual_duration_min s \<noteq> None) rows
      in \<lparr>ov_id = sp_id sprint,
          ov_title = sp_title sprint,
          ov_status = sp_status sprint,
          ov_habits_count = int (length (sprint_habits db (sp_id sprint))),
          ov_sessions_count = int (length rows),
          ov_done_sessions = int (count_status DONE rows),
          ov_completion_rate =
            (if rows = [] then None
             else Some (of_nat (count_status DONE rows) / of_nat (length rows))),
          ov_total_planned_minutes = sum_list (map s_planned_duration_min rows),
          ov_total_actual_minutes =
            (if with_actual = [] then None
             else Some (sum_list (map (\<lambda>s. the (s_actual_duration_min s)) with_actual)))\<rparr>)"

definition sessions_with_actual :: "store \<Rightarrow> int \<Rightarrow> Session list" where
  "sessions_with_actual db sprint_id =
     filter (\<lambda>s. s_actual_duration_min s \<noteq> None) (sprint_sessions db sprint_id)"

section \<open>Example stores\<close>

text \<open>
  A store with two sprints. Sprint 1 has one habit and three sessions (done, planned,
  skipped); sprint 2 has a habit and nothing else; sprint 3 has nothing at all.
\<close>

definition example_env :: env where
  "example_env =
     \<lparr>today = 739000, utcnow = (739000, 36000000000),
      py_strip = (\<lambda>s. s),
      py_int = (\<lambda>s. if s = ''1'' then Some 1 else if s = ''2'' then Some 2 else None),
      time_fromisoformat = (\<lambda>s. None)\<rparr>"

definition example_sprint :: "int \<Rightarrow> string \<Rightarrow> Sprint" where
  "example_sprint i t =
     \<lparr>sp_id = i, sp_title = t, sp_goal_text = ''Practice algorithms'',
      sp_start_date = 739000, sp_end_date = 739004, sp_status = Sprint_PLANNED,
      sp_created_at = (739000, 0), sp_updated_at = (739000, 0)\<rparr>"

definition example_session ::
  "int \<Rightarrow> int \<Rightarrow> int \<Rightarrow> SessionStatus \<Rightarrow> int option \<Rightarrow> int option \<Rightarrow> int option \<Rightarrow> Session" where
  "example_session i sprint_id planned st actual difficulty mood =
     \<lparr>s_id = i, s_sprint_id = sprint_id, s_habit_id = None,
      s_planned_start = (739000, 32400000000), s_planned_duration_min = planned,
      s_actual_start = map_option (\<lambda>_. (739000, 32400000000)) actual,
      s_actual_duration_min = actual, s_status = st, s_notes = None,
      s_difficulty = difficulty, s_mood = mood, s_created_at = (739000, 0)\<rparr>"

definition example_habit :: "int \<Rightarrow> int \<Rightarrow> Habit" where
  "example_habit i sprint_id =
     \<lparr>h_id = i, h_sprint_id = sprint_id, h_name = ''AM'', h_description = None,
      h_target_sessions_per_day = 1, h_created_at = (739000, 0), h_updated_at = (739000, 0)\<rparr>"

definition example_store :: store where
  "example_store =
     \<lparr>sprints = [example_sprint 1 ''Focus Sprint'', example_sprint 2 ''Second'',
                 example_sprint 3 ''Empty''],
      habits = [example_habit 1 1, example_habit 2 2],
      sessions =
        [example_session 1 1 50 DONE (Some 45) (Some 4) (Some 2),
         example_session 2 1 40 PLANNED None (Some 5) None,
         example_session 3 1 30 SKIPPED None (Some 1) (Some 5)]\<rparr>"

text \<open>
  The example store with two more sessions in sprint 2, of \<open>2 ^ 62\<close> planned minutes
  each: their sum is \<open>2 ^ 63\<close>.
\<close>

definition overflow_store :: store where
  "overflow_store =
     example_store\<lparr>sessions := sessions example_store @
        [example_session 4 2 4611686018427387904 PLANNED None None None,
         example_session 5 2 4611686018427387904 PLANNED None None None]\<rparr>"

text \<open>
  The example store with two more sessions in sprint 2, done, of 30 planned and
  \<open>2 ^ 62\<close> actual minutes each.
\<close>

definition actual_overflow_store :: store where
  "actual_overflow_store =
     example_store\<lparr>sessions := sessions example_store @
        [example_session 4 2 30 DONE (Some 4611686018427387904) None None,
         example_session 5 2 30 DONE (Some 4611686018427387904) None None]\<rparr>"

definition example_session_create :: "int \<Rightarrow> int option \<Rightarrow> SessionCreate" where
  "example_session_create sprint_id habit_id =
     \<lparr>sec_sprint_id = sprint_id, sec_habit_id = habit_id,
      sec_planned_start = (739001, 32400000000), sec_planned_duration_min = 25,
      sec_actual_start = None, sec_actual_duration_min = None, sec_status = PLANNED,
      sec_notes = None, sec_difficulty = None, sec_mood = None\<rparr>"




definition example_complete_request :: SessionCompleteRequest where
  "example_complete_request =
     \<lparr>scr_actual_start = (739000, 34200000000), scr_actual_duration_min = 30,
      scr_notes = None, scr_difficulty = None, scr_mood = None\<rparr>"

definition timed_session :: Session where
  "timed_session = example_session 1 1 50 PLANNED (Some 20) None None"

definition timed_store :: store where
  "timed_store = example_store\<lparr>sessions := [timed_session]\<rparr>"

section \<open>The effect of a request on the sessions table\<close>

text \<open>
  The sessions table after a request is one of: a part of the table before; the table
  before with one new row under a fresh id; the table before with the rows of one id
  replaced by a row that is not planned; or a table with no planned row.
\<close>

definition session_effect :: "store \<Rightarrow> store \<Rightarrow> bool" where
  "session_effect db db' \<longleftrightarrow>
     set (sessions db') \<subseteq> set (sessions db)
     \<or> (\<exists>new. sessions db' = sessions db @ [new] \<and> s_id new = next_id (map s_id (sessions db)))
     \<or> (\<exists>s'. s_status s' \<noteq> PLANNED
           \<and> sessions db' = map (\<lambda>r. if s_id r = s_id s' then s' else r) (sessions db))
     \<or> (\<forall>s\<in>set (sessions db'). s_status s \<noteq> PLANNED)"

section \<open>Facts about the aggregates and the lookups\<close>

lemma non_null_simps [simp]:
  "non_null [] = []"
  "non_null (None # vs) = non_null vs"
  "non_null (Some x # vs) = x # non_null vs"
  by (simp_all add: non_null_def)

lemma non_null_map_Some: "non_null (map (\<lambda>s. Some (f s)) rows) = map f rows"
  by (induction rows) simp_all

lemma non_null_filter: "non_null vs = map the (filter (\<lambda>v. v \<noteq> None) vs)"
proof (induction vs)
  case Nil
  show ?case by simp
next
  case (Cons v vs)
  then show ?case by (cases v) simp_all
qed

lemma non_null_guarded:
  "non_null (map (\<lambda>s. if P s then f s else None) rows) = non_null (map f (filter P rows))"
proof (induction rows)
  case Nil
  show ?case by simp
next
  case (Cons r rows)
  then show ?case by (cases "f r") simp_all
qed

lemma sum_list_indicator:
  "sum_list (map (\<lambda>s. if P s then 1 else 0) rows) = int (length (filter P rows))"
  by (induction rows) simp_all

lemma or_0_total_Some:
  "or_0 (null_or_total (map (\<lambda>s. Some (f s)) rows)) = sum_list (map f rows)"
proof (cases "map f rows")
  case Nil
  then show ?thesis by (simp add: or_0_def null_or_total_def non_null_map_Some)
next
  case (Cons x xs)
  then show ?thesis by (simp add: or_0_def null_or_total_def non_null_map_Some)
qed

lemma or_0_count:
  "or_0 (null_or_total (map (\<lambda>s. Some (if P s then 1 else 0)) rows))
     = int (length (filter P rows))"
  by (simp only: or_0_total_Some sum_list_indicator)

lemma running_sum_eq:
  "running_sum a xs =
     (if list_all int64 (running_totals a xs) then Inr (a + sum_list xs)
      else Inl integer_overflow)"
  by (induction xs arbitrary: a) (simp_all add: add.assoc)

lemma sql_sum_eq:
  "sql_sum vs = (if sum_fits (non_null vs) then Inr (null_or_total vs) else Inl integer_overflow)"
  by (cases "non_null vs")
    (simp_all add: sql_sum_def null_or_total_def sum_fits_def running_sum_eq)

lemma running_totals_nonneg:
  "0 \<le> a \<Longrightarrow> \<forall>x\<in>set xs. 0 \<le> x \<Longrightarrow> a + sum_list xs < 2 ^ 63 \<Longrightarrow>
   list_all int64 (running_totals a xs)"
proof (induction xs arbitrary: a)
  case Nil
  show ?case by simp
next
  case (Cons x xs)
  have nn: "0 \<le> sum_list xs"
    using Cons.prems(2) by (simp add: sum_list_nonneg)
  have "int64 (a + x)"
    using Cons.prems nn by (simp add: int64_def)
  moreover have "list_all int64 (running_totals (a + x) xs)"
    using Cons.prems by (intro Cons.IH) (simp_all add: add.assoc)
  ultimately show ?case by simp
qed

text \<open>
  Values that are not negative, as every duration a handler stores is, overflow only when
  their total does.
\<close>

lemma sum_fits_nonneg: "\<forall>x\<in>set xs. 0 \<le> x \<Longrightarrow> sum_list xs < 2 ^ 63 \<Longrightarrow> sum_fits xs"
  using running_totals_nonneg [of 0 xs] by (simp add: sum_fits_def)

lemma overview_totals_fit_Nil: "overview_totals_fit []"
  by (simp add: overview_totals_fit_def sum_fits_def)

lemma stats_totals_fit_Nil: "stats_totals_fit []"
  by (simp add: stats_totals_fit_def overview_totals_fit_Nil sum_fits_def)

lemma sql_avg_average: "sql_avg vs = average (non_null vs)"
  by (cases "non_null vs") (simp_all add: sql_avg_def average_def)

lemma get_sprint_None: "get_sprint db i = None \<longleftrightarrow> i \<notin> sp_id ` set (sprints db)"
  by (auto simp: get_sprint_def find_None_iff)

lemma get_sprint_or_404_cases:
  "get_sprint_or_404 i db =
     (if i \<in> sp_id ` set (sprints db) then Inr (the (get_sprint db i))
      else Inl (not_found_error SPRINT_NOT_FOUND ''Sprint'' i))"
  using get_sprint_None [of db i]
  by (cases "get_sprint db i") (simp_all add: get_sprint_or_404_def)

section \<open>The example store, evaluated\<close>

lemmas example_defs =
  example_store_def example_sprint_def example_habit_def example_session_def

lemma example_sprint_ids: "sp_id ` set (sprints example_store) = {1, 2, 3}"
  by (simp add: example_defs)

lemma example_sessions_1:
  "sprint_sessions example_store 1 =
     [example_session 1 1 50 DONE (Some 45) (Some 4) (Some 2),
      example_session 2 1 40 PLANNED None (Some 5) None,
      example_session 3 1 30 SKIPPED None (Some 1) (Some 5)]"
  by (simp add: example_store_def example_session_def sprint_sessions_def)

lemma example_sessions_other: "i \<noteq> 1 \<Longrightarrow> sprint_sessions example_store i = []"
  by (simp add: example_store_def example_session_def sprint_sessions_def)

lemma example_totals_fit: "stats_totals_fit (sprint_sessions example_store i)"
proof (cases "i = 1")
  case True
  then show ?thesis
    by (simp add: example_sessions_1 example_session_def stats_totals_fit_def
        overview_totals_fit_def sum_fits_def int64_def)
next
  case False
  then show ?thesis by (simp add: example_sessions_other stats_totals_fit_Nil)
qed

lemma example_overview_fit: "overview_totals_fit (sprint_sessions example_store i)"
  using example_totals_fit [of i] by (simp add: stats_totals_fit_def)

lemma overflow_sessions_2:
  "sprint_sessions overflow_store 2 =
     [example_session 4 2 4611686018427387904 PLANNED None None None,
      example_session 5 2 4611686018427387904 PLANNED None None None]"
  by (simp add: overflow_store_def example_store_def example_session_def sprint_sessions_def)


lemma actual_overflow_sessions_2:
  "sprint_sessions actual_overflow_store 2 =
     [example_session 4 2 30 DONE (Some 4611686018427387904) None None,
      example_session 5 2 30 DONE (Some 4611686018427387904) None None]"
  by (simp add: actual_overflow_store_def example_store_def example_session_def
      sprint_sessions_def)

lemma actual_overflow_not_fit:
  "\<not> overview_totals_fit (sprint_sessions actual_overflow_store 2)"
  by (simp add: actual_overflow_sessions_2 example_session_def overview_totals_fit_def
      sum_fits_def int64_def)

lemma overflow_not_fit: "\<not> overview_totals_fit (sprint_sessions overflow_store 2)"
  by (simp add: overflow_sessions_2 example_session_def overview_totals_fit_def sum_fits_def
      int64_def)

section \<open>The check constraints of the sessions table\<close>

lemma insert_session_checks:
  "SessionCreate_valid payload \<Longrightarrow> session_checks (fst (insert_session e payload db))"
  by (simp add: insert_session_def Let_def SessionCreate_valid_def session_checks_def)

lemma complete_session_checks:
  "SessionCompleteRequest_valid payload \<Longrightarrow>
   fst (complete_session session_id payload db) = Inr session' \<Longrightarrow> session_checks session'"
  by (auto simp add: complete_session_def Let_def SessionCompleteRequest_valid_def
      session_checks_def split: sum.splits)

lemma skip_session_checks:
  "get_session db session_id = Some session \<Longrightarrow> session_checks session \<Longrightarrow>
   fst (skip_session session_id payload db) = Inr session' \<Longrightarrow> session_checks session'"
  by (auto simp add: skip_session_def get_session_or_404_def Let_def session_checks_def
      split: option.splits)

lemma SessionCompleteRequest_validate_valid:
  "SessionCompleteRequest_validate body = Some payload \<Longrightarrow> SessionCompleteRequest_valid payload"
  by (auto simp add: SessionCompleteRequest_validate_def Let_def split: option.splits if_splits)

section \<open>The statistics statement, evaluated\<close>

lemma or_0_total: "or_0 (null_or_total vs) = sum_list (non_null vs)"
  by (cases "non_null vs") (simp_all add: or_0_def null_or_total_def)

lemma option_case_id: "(case v of None \<Rightarrow> None | Some a \<Rightarrow> Some a) = v"
  by (simp split: option.split)

lemma done_values_non_null:
  "done_values field rows = non_null (map field (filter (\<lambda>s. s_status s = DONE) rows))"
  by (simp add: done_values_def non_null_filter)

text \<open>
  \<open>sprint_stats\<close> in full: the 404 error for an id of no sprint, the overflow error when
  a sum of the sprint's sessions leaves the 64-bit range, and otherwise the statistics,
  written with the quantities the specification names.
\<close>

lemma sprint_stats_eq:
  "sprint_stats sprint_id db =
     (if sprint_id \<notin> sp_id ` set (sprints db)
      then Inl (HTTP (not_found_error SPRINT_NOT_FOUND ''Sprint'' sprint_id))
      else if \<not> stats_totals_fit (sprint_sessions db sprint_id)
      then Inl (OperationalError integer_overflow)
      else Inr \<lparr>st_sprint_id = sprint_id,
             st_total_sessions = int (length (sprint_sessions db sprint_id)),
             st_done_sessions = int (count_status DONE (sprint_sessions db sprint_id)),
             st_skipped_sessions = int (count_status SKIPPED (sprint_sessions db sprint_id)),
             st_completion_rate =
               (if 0 < length (sprint_sessions db sprint_id)
                then Some (of_nat (count_status DONE (sprint_sessions db sprint_id))
                           / of_nat (length (sprint_sessions db sprint_id)))
                else Some 0),
             st_total_planned_minutes =
               sum_list (map s_planned_duration_min (sprint_sessions db sprint_id)),
             st_total_actual_minutes =
               sum_list (non_null (map s_actual_duration_min (sprint_sessions db sprint_id))),
             st_avg_difficulty =
               average (done_values s_difficulty (sprint_sessions db sprint_id)),
             st_avg_mood = average (done_values s_mood (sprint_sessions db sprint_id))\<rparr>)"
  by (simp add: sprint_stats_def get_sprint_or_404_cases Let_def sql_sum_eq non_null_map_Some
      stats_totals_fit_def overview_totals_fit_def sprint_sessions_def [symmetric]
      or_0_total_Some sum_list_indicator or_0_total sql_count_def count_status_def
      option_case_id sql_avg_average non_null_guarded done_values_non_null)

section \<open>Detailed statistics: completion rate\<close>




section \<open>Detailed statistics: averages over the done sessions\<close>








section \<open>The overview statement, row by row\<close>

lemma filter_eq_remdups:
  "filter (\<lambda>x. x = k) (remdups xs) = (if k \<in> set xs then [k] else [])"
  by (induction xs) auto

lemma filter_group_by:
  "filter (\<lambda>(k', g). k' = k) (group_by key rows) =
     (if k \<in> key ` set rows then [(k, filter (\<lambda>r. key r = k) rows)] else [])"
proof -
  have "filter (\<lambda>(k', g). k' = k) (group_by key rows) =
      map (\<lambda>k. (k, filter (\<lambda>r. key r = k) rows)) (filter (\<lambda>x. x = k) (remdups (map key rows)))"
    by (simp add: group_by_def filter_map comp_def)
  then show ?thesis by (simp add: filter_eq_remdups)
qed

lemma habit_counts_lookup:
  "filter (\<lambda>hc. hcq_sprint_id hc = k) (habit_counts_subquery db) =
     (if k \<in> h_sprint_id ` set (habits db)
      then [\<lparr>hcq_sprint_id = k, hcq_habits_count = sql_count (sprint_habits db k)\<rparr>]
      else [])"
proof -
  have "filter (\<lambda>hc. hcq_sprint_id hc = k) (habit_counts_subquery db) =
      map (\<lambda>(k, g). \<lparr>hcq_sprint_id = k, hcq_habits_count = sql_count g\<rparr>)
        (filter (\<lambda>(k', g). k' = k) (group_by h_sprint_id (habits db)))"
    by (simp add: habit_counts_subquery_def filter_map comp_def case_prod_unfold)
  then show ?thesis by (simp add: filter_group_by sprint_habits_def)
qed

lemma session_stats_lookup:
  "filter (\<lambda>ss. ssq_sprint_id ss = k) (session_stats_rows db) =
     (if k \<in> s_sprint_id ` set (sessions db)
      then [\<lparr>ssq_sprint_id = k,
             ssq_sessions_count = sql_count (sprint_sessions db k),
             ssq_done_sessions =
               null_or_total (map (\<lambda>s. Some (if s_status s = DONE then 1 else 0))
                 (sprint_sessions db k)),
             ssq_total_planned_minutes =
               null_or_total (map (\<lambda>s. Some (s_planned_duration_min s)) (sprint_sessions db k)),
             ssq_total_actual_minutes =
               null_or_total (map s_actual_duration_min (sprint_sessions db k))\<rparr>]
      else [])"
proof -
  have "filter (\<lambda>ss. ssq_sprint_id ss = k) (session_stats_rows db) =
      map (\<lambda>(k, g).
            \<lparr>ssq_sprint_id = k,
             ssq_sessions_count = sql_count g,
             ssq_done_sessions =
               null_or_total (map (\<lambda>s. Some (if s_status s = DONE then 1 else 0)) g),
             ssq_total_planned_minutes =
               null_or_total (map (\<lambda>s. Some (s_planned_duration_min s)) g),
             ssq_total_actual_minutes = null_or_total (map s_actual_duration_min g)\<rparr>)
        (filter (\<lambda>(k', g). k' = k) (group_by s_sprint_id (sessions db)))"
    by (simp add: session_stats_rows_def filter_map comp_def case_prod_unfold)
  then show ?thesis by (simp add: filter_group_by sprint_sessions_def)
qed

lemma all_rows_guarded:
  "all_rows (map (\<lambda>x. if P x then Inr (f x) else Inl e) xs) =
     (if list_all P xs then Inr (map f xs) else Inl e)"
  by (induction xs) simp_all

lemma session_stats_group_eq:
  "session_stats_group kg =
     (if overview_totals_fit (snd kg)
      then Inr \<lparr>ssq_sprint_id = fst kg,
             ssq_sessions_count = sql_count (snd kg),
             ssq_done_sessions =
               null_or_total (map (\<lambda>s. Some (if s_status s = DONE then 1 else 0)) (snd kg)),
             ssq_total_planned_minutes =
               null_or_total (map (\<lambda>s. Some (s_planned_duration_min s)) (snd kg)),
             ssq_total_actual_minutes = null_or_total (map s_actual_duration_min (snd kg))\<rparr>
      else Inl integer_overflow)"
  by (cases kg)
    (simp add: session_stats_group_def sql_sum_eq non_null_map_Some overview_totals_fit_def)

lemma set_group_by:
  "set (group_by key rows) = (\<lambda>k. (k, filter (\<lambda>r. key r = k) rows)) ` key ` set rows"
  by (auto simp add: group_by_def)

lemma groups_fit_iff:
  "list_all (\<lambda>kg. overview_totals_fit (snd kg)) (group_by s_sprint_id (sessions db))
     \<longleftrightarrow> (\<forall>k. overview_totals_fit (sprint_sessions db k))"
proof
  assume "\<forall>k. overview_totals_fit (sprint_sessions db k)"
  then show "list_all (\<lambda>kg. overview_totals_fit (snd kg)) (group_by s_sprint_id (sessions db))"
    by (auto simp add: list_all_iff set_group_by sprint_sessions_def)
next
  assume a: "list_all (\<lambda>kg. overview_totals_fit (snd kg)) (group_by s_sprint_id (sessions db))"
  show "\<forall>k. overview_totals_fit (sprint_sessions db k)"
  proof
    fix k
    show "overview_totals_fit (sprint_sessions db k)"
    proof (cases "k \<in> s_sprint_id ` set (sessions db)")
      case True
      then have "(k, sprint_sessions db k) \<in> set (group_by s_sprint_id (sessions db))"
        by (auto simp add: set_group_by sprint_sessions_def)
      with a show ?thesis by (auto simp add: list_all_iff)
    next
      case False
      then have "sprint_sessions db k = []"
        by (auto simp add: sprint_sessions_def filter_empty_conv)
      then show ?thesis by (simp add: overview_totals_fit_Nil)
    qed
  qed
qed

lemma session_stats_subquery_eq:
  "session_stats_subquery db =
     (if \<forall>k. overview_totals_fit (sprint_sessions db k) then Inr (session_stats_rows db)
      else Inl integer_overflow)"
proof -
  have "session_stats_subquery db =
      (if list_all (\<lambda>kg. overview_totals_fit (snd kg)) (group_by s_sprint_id (sessions db))
       then Inr (session_stats_rows db) else Inl integer_overflow)"
    unfolding session_stats_subquery_def session_stats_rows_def
    by (simp only: session_stats_group_eq [abs_def] all_rows_guarded)
      (simp add: case_prod_unfold)
  then show ?thesis by (simp only: groups_fit_iff)
qed

lemma outerjoin_single:
  assumes "\<And>l. l \<in> set ls \<Longrightarrow> filter (on l) rs = (case g l of None \<Rightarrow> [] | Some r \<Rightarrow> [r])"
  shows "outerjoin ls rs on = map (\<lambda>l. (l, g l)) ls"
  using assms
proof (induction ls)
  case Nil
  show ?case by (simp add: outerjoin_def)
next
  case (Cons l ls)
  have tl: "outerjoin ls rs on = map (\<lambda>l. (l, g l)) ls"
    using Cons by simp
  have hd: "filter (on l) rs = (case g l of None \<Rightarrow> [] | Some r \<Rightarrow> [r])"
    using Cons.prems by simp
  have "outerjoin (l # ls) rs on =
      (case filter (on l) rs of [] \<Rightarrow> [(l, None)] | m # ms \<Rightarrow> map (\<lambda>r. (l, Some r)) (m # ms))
        @ outerjoin ls rs on"
    by (simp add: outerjoin_def)
  also have "\<dots> = (l, g l) # map (\<lambda>l. (l, g l)) ls"
    by (cases "g l") (simp_all add: hd tl)
  finally show ?case by simp
qed

lemma insort_key_map:
  "insort_key f (g x) (map g xs) = map g (insort_key (\<lambda>y. f (g y)) x xs)"
  by (induction xs) simp_all

lemma sort_key_map: "sort_key f (map g xs) = map g (sort_key (\<lambda>y. f (g y)) xs)"
  by (induction xs) (simp_all add: insort_key_map)

lemma null_or_total_optional:
  "null_or_total (map f rows) =
     (if filter (\<lambda>s. f s \<noteq> None) rows = [] then None
      else Some (sum_list (map (\<lambda>s. the (f s)) (filter (\<lambda>s. f s \<noteq> None) rows))))"
proof -
  have "non_null (map f rows) = map (\<lambda>s. the (f s)) (filter (\<lambda>s. f s \<noteq> None) rows)"
    by (simp add: non_null_filter filter_map comp_def)
  then show ?thesis
    by (cases "filter (\<lambda>s. f s \<noteq> None) rows") (simp_all add: null_or_total_def)
qed

lemma or_0_coalesce_0: "or_0 (coalesce_0 v) = or_0 v"
  by (cases v) (simp_all add: or_0_def coalesce_0_def)

lemma or_0_Some: "or_0 (Some n) = n"
  by (simp add: or_0_def)

lemma or_0_None: "or_0 None = 0"
  by (simp add: or_0_def)

lemma sprint_sessions_Nil:
  "sprint_sessions db k = [] \<longleftrightarrow> k \<notin> s_sprint_id ` set (sessions db)"
  by (auto simp add: sprint_sessions_def filter_empty_conv)

lemma sprint_habits_Nil:
  "sprint_habits db k = [] \<longleftrightarrow> k \<notin> h_sprint_id ` set (habits db)"
  by (auto simp add: sprint_habits_def filter_empty_conv)

lemma overview_rows_eq:
  "map overview_item
     (map (\<lambda>((sprint, hc), ss).
            \<lparr>row_sprint_id = sp_id sprint,
             row_title = sp_title sprint,
             row_status = sp_status sprint,
             row_start_date = sp_start_date sprint,
             row_end_date = sp_end_date sprint,
             row_habits_count = coalesce_0 (map_option hcq_habits_count hc),
             row_sessions_count = coalesce_0 (map_option ssq_sessions_count ss),
             row_done_sessions = coalesce_0 (Option.bind ss ssq_done_sessions),
             row_total_planned_minutes =
               coalesce_0 (Option.bind ss ssq_total_planned_minutes),
             row_total_actual_minutes = Option.bind ss ssq_total_actual_minutes\<rparr>)
        (sort_key (\<lambda>((sprint, hc), ss). sp_id sprint)
           (outerjoin
              (outerjoin (sprints db) (habit_counts_subquery db)
                 (\<lambda>sprint hc. hcq_sprint_id hc = sp_id sprint))
              (session_stats_rows db)
              (\<lambda>(sprint, hc) ss. ssq_sprint_id ss = sp_id sprint))))
   = map (sprint_overview db) (sort_key sp_id (sprints db))"
proof -
  define hc where "hc = (\<lambda>sprint :: Sprint.
      if sp_id sprint \<in> h_sprint_id ` set (habits db)
      then Some \<lparr>hcq_sprint_id = sp_id sprint,
                  hcq_habits_count = sql_count (sprint_habits db (sp_id sprint))\<rparr>
      else None)"
  define ss where "ss = (\<lambda>sprint :: Sprint.
      if sp_id sprint \<in> s_sprint_id ` set (sessions db)
      then Some \<lparr>ssq_sprint_id = sp_id sprint,
             ssq_sessions_count = sql_count (sprint_sessions db (sp_id sprint)),
             ssq_done_sessions =
               null_or_total (map (\<lambda>s. Some (if s_status s = DONE then 1 else 0))
                 (sprint_sessions db (sp_id sprint))),
             ssq_total_planned_minutes =
               null_or_total (map (\<lambda>s. Some (s_planned_duration_min s))
                 (sprint_sessions db (sp_id sprint))),
             ssq_total_actual_minutes =
               null_or_total (map s_actual_duration_min (sprint_sessions db (sp_id sprint)))\<rparr>
      else None)"
  have j1: "outerjoin (sprints db) (habit_counts_subquery db)
        (\<lambda>sprint h. hcq_sprint_id h = sp_id sprint)
      = map (\<lambda>sprint. (sprint, hc sprint)) (sprints db)"
    by (rule outerjoin_single) (simp add: habit_counts_lookup hc_def)
  have j2: "outerjoin (map (\<lambda>sprint. (sprint, hc sprint)) (sprints db))
        (session_stats_rows db) (\<lambda>(sprint, h) s. ssq_sprint_id s = sp_id sprint)
      = map (\<lambda>p. (p, ss (fst p))) (map (\<lambda>sprint. (sprint, hc sprint)) (sprints db))"
    by (rule outerjoin_single) (auto simp add: session_stats_lookup ss_def)
  have item: "overview_item
        \<lparr>row_sprint_id = sp_id sprint,
         row_title = sp_title sprint,
         row_status = sp_status sprint,
         row_start_date = sp_start_date sprint,
         row_end_date = sp_end_date sprint,
         row_habits_count = coalesce_0 (map_option hcq_habits_count (hc sprint)),
         row_sessions_count = coalesce_0 (map_option ssq_sessions_count (ss sprint)),
         row_done_sessions = coalesce_0 (Option.bind (ss sprint) ssq_done_sessions),
         row_total_planned_minutes =
           coalesce_0 (Option.bind (ss sprint) ssq_total_planned_minutes),
         row_total_actual_minutes = Option.bind (ss sprint) ssq_total_actual_minutes\<rparr>
      = sprint_overview db sprint" for sprint
  proof (cases "sp_id sprint \<in> s_sprint_id ` set (sessions db)")
    case True
    then have ne: "sprint_sessions db (sp_id sprint) \<noteq> []"
      by (simp add: sprint_sessions_Nil)
    from True ne show ?thesis
      by (simp add: overview_item_def sprint_overview_def Let_def hc_def ss_def
          or_0_coalesce_0 or_0_Some or_0_None or_0_count or_0_total_Some sql_count_def
          null_or_total_optional [of s_actual_duration_min] count_status_def
          sprint_habits_Nil [symmetric])
  next
    case False
    then have e: "sprint_sessions db (sp_id sprint) = []"
      by (simp add: sprint_sessions_Nil)
    from False e show ?thesis
      by (simp add: overview_item_def sprint_overview_def Let_def hc_def ss_def
          or_0_coalesce_0 or_0_Some or_0_None sql_count_def count_status_def
          sprint_habits_Nil [symmetric])
  qed
  show ?thesis
    unfolding j1 j2
    by (simp add: sort_key_map comp_def case_prod_unfold item)
qed

text \<open>
  \<open>list_sprint_overview\<close> in full: the overflow error when a sum of some sprint id's
  sessions leaves the 64-bit range, and otherwise one item for each sprint, in the order
  of the sprint ids.
\<close>

lemma list_sprint_overview_eq:
  "list_sprint_overview db =
     (if \<forall>k. overview_totals_fit (sprint_sessions db k)
      then Inr (map (sprint_overview db) (sort_key sp_id (sprints db)))
      else Inl (OperationalError integer_overflow))"
  by (simp add: list_sprint_overview_def overview_stmt_def session_stats_subquery_eq
      overview_rows_eq del: map_map)

lemma sprint_overview_id: "ov_id (sprint_overview db sprint) = sp_id sprint"
  by (simp add: sprint_overview_def Let_def)

lemma overflow_store_unfit: "\<not> (\<forall>k. overview_totals_fit (sprint_sessions overflow_store k))"
  using overflow_not_fit by blast

lemma example_habits_3: "sprint_habits example_store 3 = []"
  by (simp add: example_store_def example_habit_def sprint_habits_def)

section \<open>Overview: a sprint with no habit and no session\<close>

text \<open>
  Claim C2, as stated, fails on a store where the sums of another sprint leave the 64-bit
  range. Sprint 3 of \<open>overflow_store\<close> has no habit and no session, but the planned
  minutes of sprint 2 overflow: the overview statement fails, and the result has no item
  for sprint 3 or for any other sprint.
\<close>

theorem overview_overflow_omits_empty_sprint:
  "example_sprint 3 ''Empty'' \<in> set (sprints overflow_store)
   \<and> sprint_habits overflow_store 3 = []
   \<and> sprint_sessions overflow_store 3 = []
   \<and> list_sprint_overview overflow_store = Inl (OperationalError integer_overflow)"
proof -
  have a: "example_sprint 3 ''Empty'' \<in> set (sprints overflow_store)"
    by (simp add: overflow_store_def example_store_def)
  have b: "sprint_habits overflow_store 3 = []"
    by (simp add: overflow_store_def example_store_def example_habit_def sprint_habits_def)
  have c: "sprint_sessions overflow_store 3 = []"
    by (simp add: overflow_store_def example_store_def example_session_def
        sprint_sessions_def)
  have d: "list_sprint_overview overflow_store = Inl (OperationalError integer_overflow)"
    using overflow_store_unfit by (simp add: list_sprint_overview_eq)
  from a b c d show ?thesis by simp
qed

text \<open>
  Claim C2, amended. A sprint of the store that has no habit and no session is in the result of
  \<open>list_sprint_overview\<close>, with its id, title and status, with \<open>habits_count\<close>,
  \<open>sessions_count\<close>, \<open>done_sessions\<close> and \<open>total_planned_minutes\<close> all 0 and
  with \<open>completion_rate\<close> null. The result has one item for each sprint of the store,
  and every item that carries the id of such a sprint has these zero counts and the null
  rate. This is so whenever the sums of the statement stay in the 64-bit range for the
  sessions of every sprint id; when one of them leaves it, the statement fails with the
  error integer overflow and there is no result for any sprint.
\<close>

theorem overview_includes_empty_sprint:
  "(sprint \<in> set (sprints db) \<and> sprint_habits db (sp_id sprint) = []
      \<and> sprint_sessions db (sp_id sprint) = []
      \<and> (\<forall>k. overview_totals_fit (sprint_sessions db k)) \<longrightarrow>
      (\<exists>items. list_sprint_overview db = Inr items
         \<and> \<lparr>ov_id = sp_id sprint, ov_title = sp_title sprint, ov_status = sp_status sprint,
             ov_habits_count = 0, ov_sessions_count = 0, ov_done_sessions = 0,
             ov_completion_rate = None, ov_total_planned_minutes = 0,
             ov_total_actual_minutes = None\<rparr> \<in> set items
         \<and> length items = length (sprints db)
         \<and> (\<forall>item\<in>set items. ov_id item = sp_id sprint \<longrightarrow>
               ov_habits_count item = 0 \<and> ov_sessions_count item = 0
               \<and> ov_done_sessions item = 0 \<and> ov_total_planned_minutes item = 0
               \<and> ov_completion_rate item = None)))
   \<and> (\<not> (\<forall>k. overview_totals_fit (sprint_sessions db k)) \<longrightarrow>
      list_sprint_overview db = Inl (OperationalError integer_overflow))"
proof (intro conjI impI)
  assume "\<not> (\<forall>k. overview_totals_fit (sprint_sessions db k))"
  then show "list_sprint_overview db = Inl (OperationalError integer_overflow)"
    by (simp add: list_sprint_overview_eq)
next
  assume a: "sprint \<in> set (sprints db) \<and> sprint_habits db (sp_id sprint) = []
      \<and> sprint_sessions db (sp_id sprint) = []
      \<and> (\<forall>k. overview_totals_fit (sprint_sessions db k))"
  let ?items = "map (sprint_overview db) (sort_key sp_id (sprints db))"
  have res: "list_sprint_overview db = Inr ?items"
    using a by (simp add: list_sprint_overview_eq)
  have own: "sprint_overview db sprint =
      \<lparr>ov_id = sp_id sprint, ov_title = sp_title sprint, ov_status = sp_status sprint,
        ov_habits_count = 0, ov_sessions_count = 0, ov_done_sessions = 0,
        ov_completion_rate = None, ov_total_planned_minutes = 0,
        ov_total_actual_minutes = None\<rparr>"
    using a by (simp add: sprint_overview_def Let_def count_status_def)
  have mem: "\<lparr>ov_id = sp_id sprint, ov_title = sp_title sprint, ov_status = sp_status sprint,
        ov_habits_count = 0, ov_sessions_count = 0, ov_done_sessions = 0,
        ov_completion_rate = None, ov_total_planned_minutes = 0,
        ov_total_actual_minutes = None\<rparr> \<in> set ?items"
    using a own by (metis (no_types, lifting) imageI list.set_map set_sort)
  have len: "length ?items = length (sprints db)"
    by simp
  have zero: "ov_habits_count item = 0 \<and> ov_sessions_count item = 0
      \<and> ov_done_sessions item = 0 \<and> ov_total_planned_minutes item = 0
      \<and> ov_completion_rate item = None"
    if "item \<in> set ?items" and same: "ov_id item = sp_id sprint" for item
  proof -
    from that(1) obtain sp where sp: "item = sprint_overview db sp"
      by auto
    with same have k: "sp_id sp = sp_id sprint"
      by (simp add: sprint_overview_id)
    show ?thesis
      using a by (simp add: sp sprint_overview_def Let_def k count_status_def)
  qed
  from res mem len zero show "\<exists>items. list_sprint_overview db = Inr items
         \<and> \<lparr>ov_id = sp_id sprint, ov_title = sp_title sprint, ov_status = sp_status sprint,
             ov_habits_count = 0, ov_sessions_count = 0, ov_done_sessions = 0,
             ov_completion_rate = None, ov_total_planned_minutes = 0,
             ov_total_actual_minutes = None\<rparr> \<in> set items
         \<and> length items = length (sprints db)
         \<and> (\<forall>item\<in>set items. ov_id item = sp_id sprint \<longrightarrow>
               ov_habits_count item = 0 \<and> ov_sessions_count item = 0
               \<and> ov_done_sessions item = 0 \<and> ov_total_planned_minutes item = 0
               \<and> ov_completion_rate item = None)"
    by blast
qed

text \<open>
  Sprint 3 of the example store has no habit and no session. In \<open>overflow_store\<close> it
  has none either, but the planned minutes of sprint 2 overflow and the overview fails.
\<close>

theorem overview_includes_empty_sprint_witness:
  "(\<exists>items. list_sprint_overview example_store = Inr items
      \<and> \<lparr>ov_id = 3, ov_title = ''Empty'', ov_status = Sprint_PLANNED,
          ov_habits_count = 0, ov_sessions_count = 0, ov_done_sessions = 0,
          ov_completion_rate = None, ov_total_planned_minutes = 0,
          ov_total_actual_minutes = None\<rparr> \<in> set items
      \<and> length items = 3)
   \<and> list_sprint_overview overflow_store = Inl (OperationalError integer_overflow)"
proof -
  have a: "example_sprint 3 ''Empty'' \<in> set (sprints example_store)"
    by (simp add: example_store_def)
  have b: "sprint_habits example_store (sp_id (example_sprint 3 ''Empty'')) = []"
    by (simp add: example_habits_3 example_sprint_def)
  have c: "sprint_sessions example_store (sp_id (example_sprint 3 ''Empty'')) = []"
    by (simp add: example_sessions_other example_sprint_def)
  have n: "length (sprints example_store) = 3"
    by (simp add: example_store_def)
  have f: "\<forall>k. overview_totals_fit (sprint_sessions example_store k)"
    by (simp add: example_overview_fit)
  from overview_includes_empty_sprint [of "example_sprint 3 ''Empty''" example_store]
    overview_includes_empty_sprint [of "example_sprint 3 ''Empty''" overflow_store]
    a b c f overflow_store_unfit
  show ?thesis
    by (auto simp add: example_sprint_def n)
qed

section \<open>Overview: total of the actual minutes\<close>

text \<open>
  Claim C4, as stated, fails on a store where a sum leaves the 64-bit range. Sprint 2 of
  \<open>actual_overflow_store\<close> has two done sessions of \<open>2 ^ 62\<close> actual minutes each;
  the sum of the actual minutes that are set is \<open>2 ^ 63\<close>, the statement fails, and
  the overview has no \<open>total_actual_minutes\<close> for this sprint or for any other.
\<close>

theorem overview_actual_minutes_overflow:
  "example_sprint 2 ''Second'' \<in> set (sprints actual_overflow_store)
   \<and> sum_list (map (\<lambda>s. the (s_actual_duration_min s))
         (sessions_with_actual actual_overflow_store 2)) = 2 ^ 63
   \<and> list_sprint_overview actual_overflow_store = Inl (OperationalError integer_overflow)"
proof -
  have a: "example_sprint 2 ''Second'' \<in> set (sprints actual_overflow_store)"
    by (simp add: actual_overflow_store_def example_store_def)
  have b: "sum_list (map (\<lambda>s. the (s_actual_duration_min s))
      (sessions_with_actual actual_overflow_store 2)) = 2 ^ 63"
    by (simp add: sessions_with_actual_def actual_overflow_sessions_2 example_session_def)
  have "\<not> (\<forall>k. overview_totals_fit (sprint_sessions actual_overflow_store k))"
    using actual_overflow_not_fit by blast
  then have c: "list_sprint_overview actual_overflow_store
      = Inl (OperationalError integer_overflow)"
    by (simp add: list_sprint_overview_eq)
  from a b c show ?thesis by simp
qed

text \<open>
  Claim C4, amended. Every sprint of the store has an item in the result of
  \<open>list_sprint_overview\<close>, and in every item \<open>total_actual_minutes\<close> is null when no
  session of the item's sprint has \<open>actual_duration_min\<close> set, and is otherwise the sum
  of \<open>actual_duration_min\<close> over the sessions of that sprint that have it set; the
  sessions without it are left out of the sum. This is so whenever the sums of the
  statement stay in the 64-bit range for the sessions of every sprint id; when one of
  them leaves it, the statement fails with the error integer overflow.
\<close>

theorem overview_total_actual_minutes:
  "((\<forall>k. overview_totals_fit (sprint_sessions db k)) \<longrightarrow>
      (\<exists>items. list_sprint_overview db = Inr items
         \<and> (\<forall>sprint\<in>set (sprints db). \<exists>item\<in>set items. ov_id item = sp_id sprint)
         \<and> (\<forall>item\<in>set items.
              (ov_total_actual_minutes item = None \<longleftrightarrow>
                 (\<forall>s\<in>set (sprint_sessions db (ov_id item)). s_actual_duration_min s = None))
              \<and> ov_total_actual_minutes item =
                 (if sessions_with_actual db (ov_id item) = [] then None
                  else Some (sum_list (map (\<lambda>s. the (s_actual_duration_min s))
                               (sessions_with_actual db (ov_id item))))))))
   \<and> (\<not> (\<forall>k. overview_totals_fit (sprint_sessions db k)) \<longrightarrow>
      list_sprint_overview db = Inl (OperationalError integer_overflow))"
proof (intro conjI impI)
  assume "\<not> (\<forall>k. overview_totals_fit (sprint_sessions db k))"
  then show "list_sprint_overview db = Inl (OperationalError integer_overflow)"
    by (simp add: list_sprint_overview_eq)
next
  assume fit: "\<forall>k. overview_totals_fit (sprint_sessions db k)"
  let ?items = "map (sprint_overview db) (sort_key sp_id (sprints db))"
  have res: "list_sprint_overview db = Inr ?items"
    using fit by (simp add: list_sprint_overview_eq)
  have cover: "\<exists>item\<in>set ?items. ov_id item = sp_id sprint"
    if "sprint \<in> set (sprints db)" for sprint
  proof -
    from that have "sprint_overview db sprint \<in> set ?items" by simp
    then show ?thesis using sprint_overview_id by blast
  qed
  have total: "(ov_total_actual_minutes item = None \<longleftrightarrow>
        (\<forall>s\<in>set (sprint_sessions db (ov_id item)). s_actual_duration_min s = None))
      \<and> ov_total_actual_minutes item =
        (if sessions_with_actual db (ov_id item) = [] then None
         else Some (sum_list (map (\<lambda>s. the (s_actual_duration_min s))
                      (sessions_with_actual db (ov_id item)))))"
    if "item \<in> set ?items" for item
  proof -
    from that obtain sp where sp: "item = sprint_overview db sp"
      by auto
    have eq: "ov_total_actual_minutes item =
        (if sessions_with_actual db (ov_id item) = [] then None
         else Some (sum_list (map (\<lambda>s. the (s_actual_duration_min s))
                      (sessions_with_actual db (ov_id item)))))"
      by (simp add: sp sprint_overview_def Let_def sessions_with_actual_def)
    then have "ov_total_actual_minutes item = None \<longleftrightarrow>
        (\<forall>s\<in>set (sprint_sessions db (ov_id item)). s_actual_duration_min s = None)"
      by (simp add: sessions_with_actual_def filter_empty_conv)
    with eq show ?thesis by blast
  qed
  from res cover total show "\<exists>items. list_sprint_overview db = Inr items
         \<and> (\<forall>sprint\<in>set (sprints db). \<exists>item\<in>set items. ov_id item = sp_id sprint)
         \<and> (\<forall>item\<in>set items.
              (ov_total_actual_minutes item = None \<longleftrightarrow>
                 (\<forall>s\<in>set (sprint_sessions db (ov_id item)). s_actual_duration_min s = None))
              \<and> ov_total_actual_minutes item =
                 (if sessions_with_actual db (ov_id item) = [] then None
                  else Some (sum_list (map (\<lambda>s. the (s_actual_duration_min s))
                               (sessions_with_actual db (ov_id item))))))"
    by blast
qed

theorem overview_total_actual_minutes_witness:
  "(\<exists>items. list_sprint_overview example_store = Inr items
      \<and> (\<exists>item\<in>set items. ov_id item = 1 \<and> ov_total_actual_minutes item = Some 45)
      \<and> (\<exists>item\<in>set items. ov_id item = 3 \<and> ov_total_actual_minutes item = None))
   \<and> list_sprint_overview overflow_store = Inl (OperationalError integer_overflow)"
proof -
  have f: "\<forall>k. overview_totals_fit (sprint_sessions example_store k)"
    by (simp add: example_overview_fit)
  from overview_total_actual_minutes [of example_store] f
  obtain items where items: "list_sprint_overview example_store = Inr items"
    and cover: "\<forall>sprint\<in>set (sprints example_store). \<exists>item\<in>set items. ov_id item = sp_id sprint"
    and total: "\<forall>item\<in>set items. ov_total_actual_minutes item =
        (if sessions_with_actual example_store (ov_id item) = [] then None
         else Some (sum_list (map (\<lambda>s. the (s_actual_duration_min s))
                      (sessions_with_actual example_store (ov_id item)))))"
    by blast
  have s1: "example_sprint 1 ''Focus Sprint'' \<in> set (sprints example_store)"
    and s3: "example_sprint 3 ''Empty'' \<in> set (sprints example_store)"
    by (simp_all add: example_store_def)
  from cover s1 obtain i1 where i1: "i1 \<in> set items" "ov_id i1 = 1"
    by (auto simp add: example_sprint_def)
  from cover s3 obtain i3 where i3: "i3 \<in> set items" "ov_id i3 = 3"
    by (auto simp add: example_sprint_def)
  have w1: "sessions_with_actual example_store 1
      = [example_session 1 1 50 DONE (Some 45) (Some 4) (Some 2)]"
    by (simp add: sessions_with_actual_def example_sessions_1 example_session_def)
  have w3: "sessions_with_actual example_store 3 = []"
    by (simp add: sessions_with_actual_def example_sessions_other)
  from total i1 have t1: "ov_total_actual_minutes i1 = Some 45"
    by (simp add: w1 example_session_def)
  from total i3 have t3: "ov_total_actual_minutes i3 = None"
    by (simp add: w3)
  have o: "list_sprint_overview overflow_store = Inl (OperationalError integer_overflow)"
    using overview_total_actual_minutes [of overflow_store] overflow_store_unfit by blast
  from items i1 i3 t1 t3 o show ?thesis by blast
qed

section \<open>Creation with a mismatching sprint id\<close>





section \<open>Session creation and the habit's sprint\<close>

lemma get_session_id: "get_session db i = Some s \<Longrightarrow> s_id s = i"
  by (auto simp add: get_session_def find_Some_iff)

lemma get_session_mem: "get_session db i = Some s \<Longrightarrow> s \<in> set (sessions db)"
  by (auto simp add: get_session_def find_Some_iff)

lemma find_replace:
  "find (\<lambda>r. s_id r = i) xs = Some s \<Longrightarrow> s_id s' = i \<Longrightarrow>
   find (\<lambda>r. s_id r = i) (map (\<lambda>r. if s_id r = i then s' else r) xs) = Some s'"
  by (induction xs) (auto split: if_splits)

lemma get_session_commit:
  "get_session db i = Some s \<Longrightarrow> s_id s' = i \<Longrightarrow>
   get_session (commit_session s' db) i = Some s'"
  by (simp add: get_session_def commit_session_def find_replace)

lemma selected_habit_same_sprint:
  "selected_habit e sprint_id habit_id db = Inr (Some h) \<Longrightarrow>
   h_sprint_id h = sprint_id \<and> h \<in> set (habits db)"
  by (auto simp add: selected_habit_def get_habit_def find_Some_iff Let_def
      split: option.splits if_splits)

text \<open>
  Claim C6: the code does not do what the claim says. The payload below is a valid
  \<open>SessionCreate\<close> for sprint 1 that names habit 2, and habit 2 of the example store
  belongs to sprint 2. \<open>create_session\<close> accepts it and stores the session with that
  habit id. The form handler \<open>plan_session_ui\<close> makes the check the claim describes and
  turns the same selection down, leaving the store as it was.
\<close>

theorem create_session_accepts_habit_of_other_sprint:
  "SessionCreate_valid (example_session_create 1 (Some 2))
   \<and> map_option h_sprint_id (get_habit example_store 2) = Some 2
   \<and> (case create_session example_env 1 (example_session_create 1 (Some 2)) example_store of
         (Inl err, db') \<Rightarrow> False
       | (Inr session, db') \<Rightarrow>
           s_sprint_id session = 1 \<and> s_habit_id session = Some 2
           \<and> get_session db' (s_id session) = Some session
           \<and> length (sessions db') = 4)
   \<and> plan_session_ui example_env 1 (Some ''2'') 739001 None 25 None example_store
       = (Redirect (sprint_detail_page 1) (Some ''Invalid+habit+selected'') True, example_store)"
  by (simp add: SessionCreate_valid_def example_session_create_def opt_ge_def opt_between_def
      get_habit_def create_session_def get_sprint_or_404_cases example_sprint_ids
      insert_session_def Let_def get_session_def next_id_def
      plan_session_ui_def get_sprint_def selected_habit_def default_redirect_def
      example_env_def example_defs)

section \<open>Completing and skipping: what is written\<close>



section \<open>Completing a session through the form\<close>

text \<open>
  Claim C9, as stated, fails: the form handler takes no value from the caller, and it
  fills a field in only when the stored session has none. The planned session of
  \<open>timed_store\<close> was created with an actual start and an actual duration of 20 minutes;
  after \<open>complete_session_ui\<close> it is done and still has both, not the current time and
  not its planned duration of 50 minutes.
\<close>

theorem complete_session_ui_keeps_stored_values:
  "get_session timed_store 1 = Some timed_session
   \<and> s_status timed_session = PLANNED
   \<and> (case get_session (snd (complete_session_ui example_env 1 timed_store)) 1 of
         None \<Rightarrow> False
       | Some session' \<Rightarrow>
           s_status session' = DONE
           \<and> s_actual_start session' = Some (739000, 32400000000)
           \<and> s_actual_start session' \<noteq> Some (utcnow example_env)
           \<and> s_actual_duration_min session' = Some 20
           \<and> s_planned_duration_min session' = 50)"
  by (simp add: get_session_def timed_store_def timed_session_def example_session_def
      complete_session_ui_def commit_session_def Let_def example_env_def)

text \<open>
  Claim C9, amended. In the form path, completing a session that is in the store sets
  its status to done; it sets \<open>actual_start\<close> to the current time when the stored
  session has none and keeps the stored one otherwise, and sets
  \<open>actual_duration_min\<close> to the session's planned duration when the stored session has
  none and keeps the stored one otherwise. In the API path a body validates only when it
  has both \<open>actual_start\<close> and \<open>actual_duration_min\<close>, the validated payload carries
  exactly those two, and \<open>complete_session\<close> stores them with the status done.
\<close>

theorem complete_session_ui_defaults:
  assumes "get_session db session_id = Some session"
  shows "(\<exists>session'. get_session (snd (complete_session_ui e session_id db)) session_id
              = Some session'
            \<and> s_status session' = DONE
            \<and> s_actual_start session' =
                (case s_actual_start session of None \<Rightarrow> Some (utcnow e) | Some t \<Rightarrow> Some t)
            \<and> s_actual_duration_min session' =
                (case s_actual_duration_min session of
                   None \<Rightarrow> Some (s_planned_duration_min session)
                 | Some d \<Rightarrow> Some d))
    \<and> (\<forall>body. body_actual_start body = None \<or> body_actual_duration_min body = None
          \<longrightarrow> SessionCompleteRequest_validate body = None)
    \<and> (\<forall>body payload. SessionCompleteRequest_validate body = Some payload
          \<longrightarrow> body_actual_start body = Some (scr_actual_start payload)
            \<and> body_actual_duration_min body = Some (scr_actual_duration_min payload))
    \<and> (\<exists>session'. get_session (snd (complete_session session_id payload db)) session_id
              = Some session'
            \<and> s_status session' = DONE
            \<and> s_actual_start session' = Some (scr_actual_start payload)
            \<and> s_actual_duration_min session' = Some (scr_actual_duration_min payload))"
proof (intro conjI allI impI)
  have i: "s_id session = session_id"
    using assms by (rule get_session_id)
  show "\<exists>session'. get_session (snd (complete_session_ui e session_id db)) session_id
              = Some session'
            \<and> s_status session' = DONE
            \<and> s_actual_start session' =
                (case s_actual_start session of None \<Rightarrow> Some (utcnow e) | Some t \<Rightarrow> Some t)
            \<and> s_actual_duration_min session' =
                (case s_actual_duration_min session of
                   None \<Rightarrow> Some (s_planned_duration_min session)
                 | Some d \<Rightarrow> Some d)"
    by (simp add: complete_session_ui_def assms Let_def get_session_commit [OF assms] i
        split: option.split)
  show "\<exists>session'. get_session (snd (complete_session session_id payload db)) session_id
              = Some session'
            \<and> s_status session' = DONE
            \<and> s_actual_start session' = Some (scr_actual_start payload)
            \<and> s_actual_duration_min session' = Some (scr_actual_duration_min payload)"
    by (simp add: complete_session_def get_session_or_404_def assms Let_def
        get_session_commit [OF assms] i)
next
  fix body :: SessionCompleteBody
  assume "body_actual_start body = None \<or> body_actual_duration_min body = None"
  then show "SessionCompleteRequest_validate body = None"
    by (auto simp add: SessionCompleteRequest_validate_def split: option.split)
next
  fix body :: SessionCompleteBody and payload
  assume v: "SessionCompleteRequest_validate body = Some payload"
  then show "body_actual_start body = Some (scr_actual_start payload)"
    by (auto simp add: SessionCompleteRequest_validate_def Let_def
        split: option.splits if_splits)
  from v show "body_actual_duration_min body = Some (scr_actual_duration_min payload)"
    by (auto simp add: SessionCompleteRequest_validate_def Let_def
        split: option.splits if_splits)
qed

theorem complete_session_ui_defaults_witness:
  "map_option s_status (get_session (snd (complete_session_ui example_env 2 example_store)) 2)
     = Some DONE
   \<and> map_option s_actual_start
       (get_session (snd (complete_session_ui example_env 2 example_store)) 2)
       = Some (Some (739000, 36000000000))
   \<and> map_option s_actual_duration_min
       (get_session (snd (complete_session_ui example_env 2 example_store)) 2)
       = Some (Some 40)
   \<and> SessionCompleteRequest_validate
       \<lparr>body_actual_start = None, body_actual_duration_min = Some 30, body_notes = None,
        body_difficulty = None, body_mood = None\<rparr> = None"
proof -
  have g: "get_session example_store 2 = Some (example_session 2 1 40 PLANNED None (Some 5) None)"
    by (simp add: get_session_def example_store_def example_session_def)
  from complete_session_ui_defaults [OF g, of example_env example_complete_request]
  show ?thesis
    by (auto simp add: example_session_def example_env_def)
qed

section \<open>The demo seed\<close>

lemma upt_0_6: "[0..<6] = [0, 1, 2, 3, 4, 5]"
  by (simp add: upt_rec)

lemma seed_demo_store:
  "sprints (snd (seed_demo e db)) =
     [\<lparr>sp_id = 1, sp_title = ''Deep Work Week'',
       sp_goal_text = ''Solidify DS & Algorithms fundamentals'',
       sp_start_date = today e, sp_end_date = today e + 6, sp_status = Sprint_ACTIVE,
       sp_created_at = utcnow e, sp_updated_at = utcnow e\<rparr>]"
  "map h_sprint_id (habits (snd (seed_demo e db))) = [1, 1]"
  "map h_name (habits (snd (seed_demo e db))) = [''Morning math drills'', ''Evening recap notes'']"
  "map s_sprint_id (sessions (snd (seed_demo e db))) = [1, 1, 1, 1, 1, 1]"
  "map s_status (sessions (snd (seed_demo e db))) = [SKIPPED, DONE, DONE, SKIPPED, DONE, DONE]"
  "map s_id (sessions (snd (seed_demo e db))) = [1, 2, 3, 4, 5, 6]"
  "map s_planned_duration_min (sessions (snd (seed_demo e db))) = [60, 45, 60, 45, 60, 45]"
  "map s_actual_duration_min (sessions (snd (seed_demo e db)))
     = [None, Some 55, Some 55, None, Some 55, Some 55]"
  "seed_sprint_id (fst (seed_demo e db)) = 1"
  by (simp_all add: seed_demo_def Let_def insert_sprint_def insert_habit_def insert_session_def
      next_id_def upt_0_6 seed_session_payload_def)

lemma sprint_stats_counts:
  assumes "sprint_id \<in> sp_id ` set (sprints db)"
    and "stats_totals_fit (sprint_sessions db sprint_id)"
  shows "\<exists>r. sprint_stats sprint_id db = Inr r
    \<and> st_total_sessions r = int (length (sprint_sessions db sprint_id))
    \<and> st_done_sessions r = int (count_status DONE (sprint_sessions db sprint_id))
    \<and> st_skipped_sessions r = int (count_status SKIPPED (sprint_sessions db sprint_id))
    \<and> st_completion_rate r =
        (if 0 < length (sprint_sessions db sprint_id)
         then Some (of_nat (count_status DONE (sprint_sessions db sprint_id))
                    / of_nat (length (sprint_sessions db sprint_id)))
         else Some 0)"
  using assms by (simp add: sprint_stats_eq)

lemma count_status_map:
  "count_status st rows = length (filter (\<lambda>x. x = st) (map s_status rows))"
  by (simp add: count_status_def comp_def)

lemma seed_demo_sprint_sessions:
  "sprint_sessions (snd (seed_demo e db)) 1 = sessions (snd (seed_demo e db))"
proof -
  have "set (map s_sprint_id (sessions (snd (seed_demo e db)))) = {1}"
    by (simp only: seed_demo_store) simp
  then have "\<forall>s\<in>set (sessions (snd (seed_demo e db))). s_sprint_id s = 1"
    by auto
  then show ?thesis
    by (simp add: sprint_sessions_def)
qed

lemma seed_demo_totals_fit: "stats_totals_fit (sessions (snd (seed_demo e db)))"
proof -
  let ?rows = "sessions (snd (seed_demo e db))"
  have d: "map (\<lambda>s. if s_status s = DONE then 1 else (0::int)) ?rows
      = map (\<lambda>x. if x = DONE then 1 else 0) (map s_status ?rows)"
    and k: "map (\<lambda>s. if s_status s = SKIPPED then 1 else (0::int)) ?rows
      = map (\<lambda>x. if x = SKIPPED then 1 else 0) (map s_status ?rows)"
    by (simp_all add: comp_def)
  show ?thesis
    unfolding stats_totals_fit_def overview_totals_fit_def d k
    by (simp only: seed_demo_store) (simp add: sum_fits_def int64_def)
qed

lemma seed_demo_lengths:
  "length (sprints (snd (seed_demo e db))) = 1"
  "length (habits (snd (seed_demo e db))) = 2"
  "length (sessions (snd (seed_demo e db))) = 6"
proof -
  show "length (sprints (snd (seed_demo e db))) = 1"
    by (simp add: seed_demo_store)
  have "length (map h_sprint_id (habits (snd (seed_demo e db)))) = 2"
    by (simp only: seed_demo_store) simp
  then show "length (habits (snd (seed_demo e db))) = 2" by simp
  have "length (map s_status (sessions (snd (seed_demo e db)))) = 6"
    by (simp only: seed_demo_store) simp
  then show "length (sessions (snd (seed_demo e db))) = 6" by simp
qed

text \<open>
  Claim C8. From the empty store, \<open>seed_demo\<close> leaves one sprint, two habits and six
  sessions; the session at index \<open>i\<close> is done exactly when \<open>i mod 3\<close> is not 0 (the
  others are skipped); and \<open>sprint_stats\<close> for the seeded sprint then reports 6
  sessions, 4 done, 2 skipped and the completion rate 4/6.
\<close>

theorem seed_demo_statistics:
  "(case seed_demo e empty_store of
      (resp, db) \<Rightarrow>
        length (sprints db) = 1 \<and> length (habits db) = 2 \<and> length (sessions db) = 6
        \<and> map (\<lambda>s. s_status s = DONE) (sessions db) = map (\<lambda>i. i mod 3 \<noteq> 0) [0..<6]
        \<and> map s_status (sessions db) = [SKIPPED, DONE, DONE, SKIPPED, DONE, DONE]
        \<and> (\<exists>r. sprint_stats (seed_sprint_id resp) db = Inr r
              \<and> st_total_sessions r = 6 \<and> st_done_sessions r = 4
              \<and> st_skipped_sessions r = 2 \<and> st_completion_rate r = Some (4 / 6)))"
proof -
  let ?db = "snd (seed_demo e empty_store)"
  have st: "map s_status (sessions ?db) = [SKIPPED, DONE, DONE, SKIPPED, DONE, DONE]"
    by (rule seed_demo_store)
  have "map (\<lambda>s. s_status s = DONE) (sessions ?db)
      = map (\<lambda>x. x = DONE) (map s_status (sessions ?db))"
    by (simp add: comp_def)
  then have pat: "map (\<lambda>s. s_status s = DONE) (sessions ?db) = map (\<lambda>i. i mod 3 \<noteq> 0) [0..<6]"
    by (simp only: st upt_0_6) simp
  have "1 \<in> sp_id ` set (sprints ?db)"
    by (simp add: seed_demo_store)
  moreover have "stats_totals_fit (sprint_sessions ?db 1)"
    by (simp only: seed_demo_sprint_sessions seed_demo_totals_fit)
  ultimately have stats: "\<exists>r. sprint_stats 1 ?db = Inr r
      \<and> st_total_sessions r = 6 \<and> st_done_sessions r = 4
      \<and> st_skipped_sessions r = 2 \<and> st_completion_rate r = Some (4 / 6)"
    using sprint_stats_counts [of 1 ?db]
    by (simp add: seed_demo_sprint_sessions seed_demo_lengths count_status_map st)
  show ?thesis
    using st pat stats
    by (simp add: case_prod_unfold seed_demo_lengths seed_demo_store)
qed

section \<open>What each operation does to the sessions table\<close>

lemma fold_max_ge: "(a::int) \<le> fold max xs a"
proof (induction xs arbitrary: a)
  case Nil
  show ?case by simp
next
  case (Cons x xs)
  have "a \<le> max x a" by simp
  also have "\<dots> \<le> fold max xs (max x a)" by (rule Cons.IH)
  finally show ?case by simp
qed

lemma fold_max_mem: "(x::int) \<in> set xs \<Longrightarrow> x \<le> fold max xs a"
proof (induction xs arbitrary: a)
  case Nil
  then show ?case by simp
next
  case (Cons y ys)
  show ?case
  proof (cases "x = y")
    case True
    have "x \<le> max y a" using True by simp
    also have "\<dots> \<le> fold max ys (max y a)" by (rule fold_max_ge)
    finally show ?thesis by simp
  next
    case False
    with Cons.prems have "x \<in> set ys" by simp
    then show ?thesis using Cons.IH by simp
  qed
qed

lemma next_id_fresh: "i \<in> set ids \<Longrightarrow> i < next_id ids"
  using fold_max_mem [of i ids 0] by (simp add: next_id_def)

lemma insert_session_sessions:
  "\<exists>new. sessions (snd (insert_session e payload db)) = sessions db @ [new]
     \<and> s_id new = next_id (map s_id (sessions db)) \<and> s_status new = sec_status payload"
  by (simp add: insert_session_def Let_def)

lemma insert_sprint_sessions: "sessions (snd (insert_sprint e payload db)) = sessions db"
  by (simp add: insert_sprint_def Let_def)

lemma insert_habit_sessions: "sessions (snd (insert_habit e payload db)) = sessions db"
  by (simp add: insert_habit_def Let_def)

lemma session_effect_same: "sessions db' = sessions db \<Longrightarrow> session_effect db db'"
  by (simp add: session_effect_def)

lemma session_effect_refl: "session_effect db db"
  by (simp add: session_effect_def)

lemma session_effect_commit:
  "s_status s' \<noteq> PLANNED \<Longrightarrow> session_effect db (commit_session s' db)"
  by (auto simp add: session_effect_def commit_session_def)

lemma session_effect_insert: "session_effect db (snd (insert_session e payload db))"
  using insert_session_sessions [of e payload db] by (auto simp add: session_effect_def)

lemma create_sprint_effect: "session_effect db (snd (create_sprint e payload db))"
  by (simp add: create_sprint_def session_effect_same insert_sprint_sessions)

lemma update_sprint_status_effect:
  "session_effect db (snd (update_sprint_status e sprint_id payload db))"
  by (auto simp add: update_sprint_status_def commit_sprint_def Let_def session_effect_def
      split: sum.split)

lemma create_habit_effect: "session_effect db (snd (create_habit e sprint_id payload db))"
  by (auto simp add: create_habit_def case_prod_unfold Let_def session_effect_refl
      session_effect_same insert_habit_sessions split: sum.split)

lemma create_session_effect: "session_effect db (snd (create_session e sprint_id payload db))"
  by (auto simp add: create_session_def case_prod_unfold Let_def session_effect_refl
      session_effect_insert split: sum.split)

lemma complete_session_effect:
  "session_effect db (snd (complete_session session_id payload db))"
  by (auto simp add: complete_session_def Let_def session_effect_refl
      intro!: session_effect_commit split: sum.split)

lemma skip_session_effect: "session_effect db (snd (skip_session session_id payload db))"
  by (auto simp add: skip_session_def Let_def session_effect_refl
      intro!: session_effect_commit split: sum.split option.split)

lemma seed_demo_effect: "session_effect db (snd (seed_demo e db))"
proof -
  have "s_status s \<noteq> PLANNED" if "s \<in> set (sessions (snd (seed_demo e db)))" for s
  proof -
    from that have "s_status s \<in> set (map s_status (sessions (snd (seed_demo e db))))"
      by simp
    then have "s_status s \<in> set [SKIPPED, DONE, DONE, SKIPPED, DONE, DONE]"
      by (simp only: seed_demo_store)
    then show ?thesis by auto
  qed
  then show ?thesis by (simp add: session_effect_def)
qed

lemma create_sprint_ui_effect:
  "session_effect db (snd (create_sprint_ui e title goal_text start_date end_date db))"
  by (simp add: create_sprint_ui_def case_prod_unfold session_effect_same
      insert_sprint_sessions)

lemma create_habit_ui_effect:
  "session_effect db (snd (create_habit_ui e sprint_id name description target db))"
  by (auto simp add: create_habit_ui_def Let_def case_prod_unfold session_effect_refl
      session_effect_same insert_habit_sessions split: option.split)

lemma delete_habit_ui_effect: "session_effect db (snd (delete_habit_ui habit_id db))"
  by (auto simp add: delete_habit_ui_def Let_def session_effect_def split: option.split)

lemma plan_session_ui_effect:
  "session_effect db (snd (plan_session_ui e sprint_id habit_id d t duration notes db))"
  by (auto simp add: plan_session_ui_def Let_def case_prod_unfold session_effect_refl
      session_effect_insert split: sum.split)

lemma complete_session_ui_effect: "session_effect db (snd (complete_session_ui e session_id db))"
  by (auto simp add: complete_session_ui_def Let_def session_effect_refl
      intro!: session_effect_commit split: option.split)

lemma skip_session_ui_effect: "session_effect db (snd (skip_session_ui session_id db))"
  by (auto simp add: skip_session_ui_def Let_def session_effect_refl
      intro!: session_effect_commit split: option.split)

lemma handle_effect: "session_effect db (handle e request db)"
  by (cases request)
    (simp_all add: session_effect_refl create_sprint_effect update_sprint_status_effect
      create_habit_effect create_session_effect complete_session_effect skip_session_effect
      seed_demo_effect create_sprint_ui_effect create_habit_ui_effect delete_habit_ui_effect
      plan_session_ui_effect complete_session_ui_effect skip_session_ui_effect)

section \<open>Done and skipped are terminal\<close>

text \<open>
  Claim C7. Take a session of the store whose id is held only by rows that are done or
  skipped (one row, the id being the primary key). After any single request, whichever
  route it takes, every row of the sessions table with that id is still not planned.
\<close>

theorem done_and_skipped_never_planned_again:
  assumes "session \<in> set (sessions db)"
    and "\<forall>s\<in>set (sessions db). s_id s = s_id session \<longrightarrow> s_status s \<noteq> PLANNED"
  shows "\<forall>s'\<in>set (sessions (handle e request db)).
           s_id s' = s_id session \<longrightarrow> s_status s' \<noteq> PLANNED"
proof (intro ballI impI)
  fix s'
  assume mem: "s' \<in> set (sessions (handle e request db))" and same: "s_id s' = s_id session"
  have "session_effect db (handle e request db)"
    by (rule handle_effect)
  then consider
      (part) "set (sessions (handle e request db)) \<subseteq> set (sessions db)"
    | (new) n where "sessions (handle e request db) = sessions db @ [n]"
        and "s_id n = next_id (map s_id (sessions db))"
    | (commit) c where "s_status c \<noteq> PLANNED"
        and "sessions (handle e request db)
             = map (\<lambda>r. if s_id r = s_id c then c else r) (sessions db)"
    | (settled) "\<forall>s\<in>set (sessions (handle e request db)). s_status s \<noteq> PLANNED"
    unfolding session_effect_def by blast
  then show "s_status s' \<noteq> PLANNED"
  proof cases
    case part
    with mem have "s' \<in> set (sessions db)" by blast
    with assms(2) same show ?thesis by blast
  next
    case new
    have "s_id session \<in> set (map s_id (sessions db))"
      using assms(1) by simp
    then have "s_id session < next_id (map s_id (sessions db))"
      by (rule next_id_fresh)
    with new(2) same have "s' \<noteq> n" by auto
    with mem new(1) have "s' \<in> set (sessions db)" by simp
    with assms(2) same show ?thesis by blast
  next
    case commit
    from mem commit(2) have "s' = c \<or> s' \<in> set (sessions db)"
      by auto
    with commit(1) assms(2) same show ?thesis by blast
  next
    case settled
    with mem show ?thesis by blast
  qed
qed

theorem done_and_skipped_never_planned_again_witness:
  "example_session 1 1 50 DONE (Some 45) (Some 4) (Some 2) \<in> set (sessions example_store)
   \<and> list_all (\<lambda>s. s_id s \<noteq> 1 \<or> s_status s \<noteq> PLANNED)
       (sessions (handle example_env (PATCH_session_skip 1 None) example_store))
   \<and> list_all (\<lambda>s. s_id s \<noteq> 1 \<or> s_status s \<noteq> PLANNED)
       (sessions (handle example_env (POST_sessions 1 (example_session_create 1 None))
          example_store))
   \<and> list_all (\<lambda>s. s_id s \<noteq> 1 \<or> s_status s \<noteq> PLANNED)
       (sessions (handle example_env POST_demo_seed example_store))
   \<and> map s_status (sessions (handle example_env (PATCH_session_skip 1 None) example_store))
       = [SKIPPED, PLANNED, SKIPPED]"
proof -
  have ev: "map s_status (sessions (handle example_env (PATCH_session_skip 1 None) example_store))
      = [SKIPPED, PLANNED, SKIPPED]"
    by (simp add: skip_session_def get_session_or_404_def get_session_def commit_session_def
        Let_def example_store_def example_session_def)
  let ?s = "example_session 1 1 50 DONE (Some 45) (Some 4) (Some 2)"
  have m: "?s \<in> set (sessions example_store)"
    by (simp add: example_store_def)
  have a: "\<forall>s\<in>set (sessions example_store). s_id s = s_id ?s \<longrightarrow> s_status s \<noteq> PLANNED"
    by (simp add: example_store_def example_session_def)
  have i: "s_id ?s = 1"
    by (simp add: example_session_def)
  note t = done_and_skipped_never_planned_again [OF m a]
  from t [of example_env "PATCH_session_skip 1 None"]
    t [of example_env "POST_sessions 1 (example_session_create 1 None)"]
    t [of example_env POST_demo_seed]
  show ?thesis
    using m ev unfolding list_all_iff i by blast
qed

end
